theory Spec2Isabelle
  imports Complex_Main
begin

section \<open>Python values and exceptions\<close>

text \<open>
  The program is a Python script. Its functions check the dynamic type of their arguments
  with \<open>isinstance\<close>, so arguments are values of a small universe of Python objects.
  A float is an IEEE binary64 number: \<open>Finite m e\<close> stands for the number \<open>m * 2 ^ e\<close>
  (the two zeros are not distinguished), next to the two infinities and NaN.
  Strings are lists of characters; \<open>bool\<close> and float subclasses are not part of the universe.
\<close>

datatype pyfloat = Finite int int | PosInf | NegInf | NaN

datatype pyval =
    PyNone
  | PyInt (int_of: int)
  | PyFloat (float_of: pyfloat)
  | PyStr (str_of: string)
  | PyTuple (items_of: "pyval list")

text \<open>\<open>isinstance(x, str)\<close>, \<open>isinstance(x, float)\<close> and \<open>isinstance(x, tuple)\<close>.\<close>

fun is_str :: "pyval \<Rightarrow> bool" where
  "is_str (PyStr s) = True"
| "is_str _ = False"

fun is_float :: "pyval \<Rightarrow> bool" where
  "is_float (PyFloat f) = True"
| "is_float _ = False"

fun is_tuple :: "pyval \<Rightarrow> bool" where
  "is_tuple (PyTuple t) = True"
| "is_tuple _ = False"

text \<open>
  Every function of the program wraps its body in \<open>try\<close> and handles \<open>TypeError\<close>,
  \<open>ValueError\<close> and then \<open>Exception\<close>: the handler prints one line and the function
  returns \<open>None\<close>. A result \<open>Inl e\<close> stands for that outcome (exception \<open>e\<close> was raised in
  the body, reported and swallowed), \<open>Inr v\<close> for a normal return of \<open>v\<close>. What becomes
  of a handler whose own \<open>print\<close> raises is written out where one function calls another
  (\<open>report\<close> below).
  \<open>OtherError\<close> collects every exception class that is neither a \<open>TypeError\<close> nor a
  \<open>ValueError\<close> (\<open>OverflowError\<close>, \<open>OSError\<close>, ...).
\<close>

datatype exn = TypeError string | ValueError string | OtherError string

fun message :: "exn \<Rightarrow> string" where
  "message (TypeError m) = m"
| "message (ValueError m) = m"
| "message (OtherError m) = m"

text \<open>The line printed by the three-clause handler of \<open>resize\<close>, \<open>build_output_path\<close>
  and \<open>add_watermark\<close>.\<close>

fun handler_line :: "exn \<Rightarrow> string" where
  "handler_line (TypeError m) = ''TypeError: '' @ m"
| "handler_line (ValueError m) = ''ValueError: '' @ m"
| "handler_line (OtherError m) = ''Error: '' @ m"

text \<open>What a call prints on its way to the result: nothing on a normal return.\<close>

definition printed :: "(exn \<Rightarrow> string) \<Rightarrow> exn + 'a \<Rightarrow> string list" where
  "printed line r = (case r of Inl e \<Rightarrow> [line e] | Inr _ \<Rightarrow> [])"

definition apostrophe :: string where
  "apostrophe = [CHR 0x27]"

definition quoted :: "string \<Rightarrow> string" where
  "quoted s = apostrophe @ s @ apostrophe"

section \<open>Geometry: offset\<close>

definition valid_positions :: "string list" where
  "valid_positions = [''top-left'', ''bottom-left'', ''top-right'', ''bottom-right'', ''center'']"

definition invalid_position_message :: string where
  "invalid_position_message =
     ''Invalid position provided. Possible values: '' @ quoted ''top-left'' @ '', ''
       @ quoted ''bottom-left'' @ '', '' @ quoted ''top-right'' @ '', ''
       @ quoted ''bottom-right'' @ '', '' @ quoted ''center''"

text \<open>
  \<open>offset(original_image, watermark, position)\<close> reads only the \<open>size\<close> of its two images:
  \<open>size[0]\<close> is the width and \<open>size[1]\<close> the height. \<open>//\<close> is floor division, which is
  \<open>div\<close> on \<open>int\<close>. Its single handler prints \<open>Error: ...\<close> for every exception.
\<close>

definition offset :: "int \<times> int \<Rightarrow> int \<times> int \<Rightarrow> pyval \<Rightarrow> exn + int \<times> int" where
  "offset original_size watermark_size position =
     (if position = PyStr ''top-left'' then Inr (0, 0)
      else if position = PyStr ''bottom-left'' then
        Inr (0, snd original_size - snd watermark_size)
      else if position = PyStr ''top-right'' then
        Inr (fst original_size - fst watermark_size, 0)
      else if position = PyStr ''bottom-right'' then
        Inr (fst original_size - fst watermark_size, snd original_size - snd watermark_size)
      else if position = PyStr ''center'' then
        Inr ((fst original_size - fst watermark_size) div 2,
             (snd original_size - snd watermark_size) div 2)
      else Inl (ValueError invalid_position_message))"

definition offset_line :: "exn \<Rightarrow> string" where
  "offset_line e = ''Error: '' @ message e"

section \<open>Float arithmetic\<close>

text \<open>\<open>int.bit_length\<close>: the number of binary digits of the absolute value.\<close>

function bit_length :: "int \<Rightarrow> int" where
  "bit_length n = (if n = 0 then 0 else 1 + bit_length (\<bar>n\<bar> div 2))"
  by pat_completeness auto
termination
  by (relation "measure (\<lambda>n. nat \<bar>n\<bar>)") auto

declare bit_length.simps [simp del]

text \<open>\<open>round_half_even m k\<close> is \<open>m / 2 ^ k\<close> rounded to the nearest integer, a tie going to
  the even neighbour.\<close>

definition round_half_even :: "int \<Rightarrow> nat \<Rightarrow> int" where
  "round_half_even m k =
     (if k = 0 then m
      else (let q = m div 2 ^ k; r = m mod 2 ^ k; h = 2 ^ (k - 1)
            in if r < h then q else if h < r then q + 1 else if even q then q else q + 1))"

text \<open>
  The binary64 number nearest to the exact value \<open>m * 2 ^ e\<close> (round to nearest, ties to
  even): 53 significant bits, the least exponent of a unit in the last place is \<open>-1074\<close>,
  and a magnitude that rounds to \<open>2 ^ 1024\<close> or more overflows to an infinity.
\<close>

definition round_binary64 :: "int \<Rightarrow> int \<Rightarrow> pyfloat" where
  "round_binary64 m e =
     (if m = 0 then Finite 0 0
      else (let q = max (bit_length m + e - 53) (- 1074);
                r = (if q \<le> e then m * 2 ^ nat (e - q) else round_half_even m (nat (q - e)))
            in if 0 \<le> q \<and> 2 ^ 1024 \<le> \<bar>r\<bar> * 2 ^ nat q
               then (if 0 < m then PosInf else NegInf)
               else Finite r q))"

text \<open>The conversion of an \<open>int\<close> operand to float; it raises \<open>OverflowError\<close> instead of
  producing an infinity.\<close>

definition float_of_int :: "int \<Rightarrow> exn + pyfloat" where
  "float_of_int n =
     (case round_binary64 n 0 of
        Finite m e \<Rightarrow> Inr (Finite m e)
      | _ \<Rightarrow> Inl (OtherError ''int too large to convert to float''))"

fun float_sign :: "pyfloat \<Rightarrow> int" where
  "float_sign (Finite m e) = sgn m"
| "float_sign PosInf = 1"
| "float_sign NegInf = - 1"
| "float_sign NaN = 0"

text \<open>The product of two floats. Float multiplication never raises: it overflows to an
  infinity, and \<open>inf * 0\<close> is NaN.\<close>

fun float_mul :: "pyfloat \<Rightarrow> pyfloat \<Rightarrow> pyfloat" where
  "float_mul (Finite m1 e1) (Finite m2 e2) = round_binary64 (m1 * m2) (e1 + e2)"
| "float_mul NaN y = NaN"
| "float_mul x NaN = NaN"
| "float_mul x y =
     (let s = float_sign x * float_sign y
      in if s = 0 then NaN else if 0 < s then PosInf else NegInf)"

text \<open>The comparison \<open>x <= 0\<close> of a float with the integer zero; false for NaN.\<close>

fun float_le_zero :: "pyfloat \<Rightarrow> bool" where
  "float_le_zero (Finite m e) = (m \<le> 0)"
| "float_le_zero NegInf = True"
| "float_le_zero PosInf = False"
| "float_le_zero NaN = False"

text \<open>\<open>int(x)\<close> of a float: truncation toward zero; an infinity raises \<open>OverflowError\<close>,
  NaN raises \<open>ValueError\<close>.\<close>

fun int_of_float :: "pyfloat \<Rightarrow> exn + int" where
  "int_of_float (Finite m e) =
     Inr (if 0 \<le> e then m * 2 ^ nat e else sgn m * (\<bar>m\<bar> div 2 ^ nat (- e)))"
| "int_of_float NaN = Inl (ValueError ''cannot convert float NaN to integer'')"
| "int_of_float PosInf = Inl (OtherError ''cannot convert float infinity to integer'')"
| "int_of_float NegInf = Inl (OtherError ''cannot convert float infinity to integer'')"

text \<open>\<open>x * f\<close> for a float \<open>f\<close>: an \<open>int\<close> is converted to float first, a float is
  multiplied directly, and \<open>None\<close>, a string or a tuple raise \<open>TypeError\<close>.\<close>

fun mul_by_float :: "pyval \<Rightarrow> pyfloat \<Rightarrow> exn + pyfloat" where
  "mul_by_float (PyInt n) f =
     (case float_of_int n of Inl e \<Rightarrow> Inl e | Inr g \<Rightarrow> Inr (float_mul g f))"
| "mul_by_float (PyFloat g) f = Inr (float_mul g f)"
| "mul_by_float PyNone f =
     Inl (TypeError (''unsupported operand type(s) for *: '' @ quoted ''NoneType'' @ '' and ''
            @ quoted ''float''))"
| "mul_by_float (PyStr s) f =
     Inl (TypeError (''can'' @ apostrophe @ ''t multiply sequence by non-int of type ''
            @ quoted ''float''))"
| "mul_by_float (PyTuple t) f =
     Inl (TypeError (''can'' @ apostrophe @ ''t multiply sequence by non-int of type ''
            @ quoted ''float''))"

text \<open>\<open>int(x * f)\<close>.\<close>

definition scaled :: "pyval \<Rightarrow> pyfloat \<Rightarrow> exn + int" where
  "scaled x f = (case mul_by_float x f of Inl e \<Rightarrow> Inl e | Inr p \<Rightarrow> int_of_float p)"

section \<open>Geometry: resize\<close>

text \<open>The error of \<open>width, height = original_image_size\<close> on a tuple of the wrong length.\<close>

definition unpack_message :: "nat \<Rightarrow> string" where
  "unpack_message n =
     (if n = 0 then ''not enough values to unpack (expected 2, got 0)''
      else if n = 1 then ''not enough values to unpack (expected 2, got 1)''
      else ''too many values to unpack (expected 2)'')"

definition resize :: "pyval \<Rightarrow> pyval \<Rightarrow> exn + pyval" where
  "resize original_image_size scale_factor =
     (if \<not> is_tuple original_image_size then
        Inl (TypeError ''original_image_size must be a tuple.'')
      else if \<not> is_float scale_factor then
        Inl (TypeError ''scale_factor must be a float.'')
      else if float_le_zero (float_of scale_factor) then
        Inl (ValueError ''scale_factor must be greater than 0.'')
      else
        (case items_of original_image_size of
           [width, height] \<Rightarrow>
             (case scaled width (float_of scale_factor) of
                Inl e \<Rightarrow> Inl e
              | Inr resized_width \<Rightarrow>
                  (case scaled height (float_of scale_factor) of
                     Inl e \<Rightarrow> Inl e
                   | Inr resized_height \<Rightarrow>
                       Inr (PyTuple [PyInt resized_width, PyInt resized_height])))
         | items \<Rightarrow> Inl (ValueError (unpack_message (length items)))))"

section \<open>Path builder\<close>

text \<open>\<open>os.path.join\<close> of two components and \<open>os.path.basename\<close>, as \<open>posixpath\<close>
  defines them.\<close>

definition os_path_join :: "string \<Rightarrow> string \<Rightarrow> string" where
  "os_path_join a b =
     (if b \<noteq> [] \<and> hd b = CHR ''/'' then b
      else if a = [] \<or> last a = CHR ''/'' then a @ b
      else a @ ''/'' @ b)"

definition os_path_basename :: "string \<Rightarrow> string" where
  "os_path_basename p = rev (takeWhile (\<lambda>c. c \<noteq> CHR ''/'') (rev p))"

definition build_output_path :: "pyval \<Rightarrow> pyval \<Rightarrow> exn + string" where
  "build_output_path file_name output_path =
     (if \<not> is_str file_name then Inl (TypeError ''file_name must be a string.'')
      else if \<not> is_str output_path then Inl (TypeError ''output_path must be a string.'')
      else if file_name = PyStr [] \<or> output_path = PyStr [] then
        Inl (ValueError ''file_name and output_path cannot be empty strings.'')
      else
        (let output_file_name = ''watermarked_'' @ str_of file_name
         in Inr (os_path_join (str_of output_path) output_file_name)))"

section \<open>The image library, the console and the file system\<close>

text \<open>
  Decoding, resizing, masking, pasting and encoding are done by an image library, the
  directory listing by the operating system and the output by \<open>print\<close>. All are parameters
  of the model: a record of operations over a type \<open>'img\<close> of images and a type \<open>'fs\<close> of
  states of the world outside the program. An operation that can raise returns a sum.
  \<open>image_resize\<close>, \<open>image_paste\<close> and \<open>image_save\<close> receive whatever the program passes
  them, which is \<open>None\<close> when one of the program's own calculations failed; saving returns
  the new state together with the exception it raised, if any. \<open>print_line\<close> is \<open>print\<close>
  of one line: it returns the exception it raised, if any (a console that cannot encode the
  line raises \<open>UnicodeEncodeError\<close>, a \<open>ValueError\<close>).
\<close>

record ('img, 'fs) image_library =
  image_open :: "'fs \<Rightarrow> string \<Rightarrow> exn + 'img"
  image_size :: "'img \<Rightarrow> int \<times> int"
  image_resize :: "'img \<Rightarrow> pyval \<Rightarrow> exn + 'img"
  grayscale :: "'img \<Rightarrow> exn + 'img"
  invert :: "'img \<Rightarrow> exn + 'img"
  image_paste :: "'img \<Rightarrow> 'img \<Rightarrow> (int \<times> int) option \<Rightarrow> 'img \<Rightarrow> exn + 'img"
  image_save :: "'fs \<Rightarrow> 'img \<Rightarrow> string option \<Rightarrow> 'fs \<times> exn option"
  listdir :: "'fs \<Rightarrow> string \<Rightarrow> exn + string list"
  print_line :: "'fs \<Rightarrow> string \<Rightarrow> exn option"

text \<open>What one run of the compositor does, in order: the calls of \<open>print\<close>, each with its
  line, and the library calls, each with the argument the program computed for it.\<close>

datatype event =
    Printed string
  | OpenCall string
  | ResizeCall pyval
  | GrayscaleCall
  | InvertCall
  | PasteCall "(int \<times> int) option"
  | SaveCall "string option"

fun is_paste_or_save :: "event \<Rightarrow> bool" where
  "is_paste_or_save (PasteCall p) = True"
| "is_paste_or_save (SaveCall p) = True"
| "is_paste_or_save _ = False"

text \<open>A step of a \<open>try\<close> body: the events so far, the state of the world, and either the
  exception that ended the body or the value to continue with.\<close>

type_synonym ('fs, 'a) step = "event list \<times> 'fs \<times> (exn + 'a)"

definition then_do :: "('fs, 'a) step \<Rightarrow> ('fs \<Rightarrow> 'a \<Rightarrow> ('fs, 'b) step) \<Rightarrow> ('fs, 'b) step" where
  "then_do m k =
     (case m of
        (evs, fs, Inl e) \<Rightarrow> (evs, fs, Inl e)
      | (evs, fs, Inr a) \<Rightarrow> (case k fs a of (evs', fs', r) \<Rightarrow> (evs @ evs', fs', r)))"

text \<open>
  A call of one of the program's own functions, seen from the caller. When the body of the
  function raised, its handler prints the report: the caller then gets \<open>None\<close>, or, since
  the handler's \<open>print\<close> stands outside every \<open>try\<close> of the function, the exception that
  \<open>print\<close> raised.
\<close>

definition report ::
  "('img, 'fs) image_library \<Rightarrow> 'fs \<Rightarrow> (exn \<Rightarrow> string) \<Rightarrow> exn + 'a \<Rightarrow> ('fs, 'a option) step" where
  "report L fs line r =
     (case r of
        Inr v \<Rightarrow> ([], fs, Inr (Some v))
      | Inl e \<Rightarrow>
          ([Printed (line e)], fs,
           (case print_line L fs (line e) of None \<Rightarrow> Inr None | Some e' \<Rightarrow> Inl e')))"

text \<open>The value a caller sees when the report was printed: \<open>None\<close> after a swallowed
  exception.\<close>

definition returned :: "exn + 'a \<Rightarrow> 'a option" where
  "returned r = (case r of Inl e \<Rightarrow> None | Inr v \<Rightarrow> Some v)"

definition or_none :: "pyval option \<Rightarrow> pyval" where
  "or_none v = (case v of None \<Rightarrow> PyNone | Some x \<Rightarrow> x)"

definition size_value :: "int \<times> int \<Rightarrow> pyval" where
  "size_value sz = PyTuple [PyInt (fst sz), PyInt (snd sz)]"

section \<open>Compositor\<close>

definition invalid_position_value_message :: string where
  "invalid_position_value_message =
     ''position must be one of ['' @ quoted ''top-left'' @ '', '' @ quoted ''bottom-left''
       @ '', '' @ quoted ''top-right'' @ '', '' @ quoted ''bottom-right'' @ '', ''
       @ quoted ''center'' @ ''].''"

definition saved_line :: "string \<Rightarrow> string \<Rightarrow> string \<Rightarrow> string" where
  "saved_line watermark_path file_name position =
     ''Saved watermark ('' @ watermark_path @ '') to image ('' @ file_name @ '') at (''
       @ position @ '') position''"

text \<open>The body of the \<open>with\<close> statement of \<open>add_watermark\<close>, entered with both images
  open. \<open>paste\<close> changes the original image in place. The last \<open>print\<close> stands inside the
  \<open>try\<close>: an exception it raises ends the body like any other.\<close>

definition composite ::
  "('img, 'fs) image_library \<Rightarrow> 'fs \<Rightarrow> 'img \<Rightarrow> 'img \<Rightarrow> pyval \<Rightarrow> pyval \<Rightarrow> pyval \<Rightarrow> pyval \<Rightarrow> pyval
     \<Rightarrow> ('fs, unit) step" where
  "composite L fs original_image watermark watermark_path output_path position scale_factor
     file_name =
     then_do (report L fs handler_line
                (resize (size_value (image_size L original_image)) scale_factor))
       (\<lambda>fs target.
     then_do ([ResizeCall (or_none target)], fs, image_resize L watermark (or_none target))
       (\<lambda>fs watermark.
     then_do ([GrayscaleCall], fs, grayscale L watermark)
       (\<lambda>fs gray.
     then_do ([InvertCall], fs, invert L gray)
       (\<lambda>fs watermark_mask.
     then_do (report L fs offset_line
                (offset (image_size L original_image) (image_size L watermark) position))
       (\<lambda>fs place.
     then_do ([PasteCall place], fs,
              image_paste L original_image watermark place watermark_mask)
       (\<lambda>fs original_image.
     then_do (report L fs handler_line (build_output_path file_name output_path))
       (\<lambda>fs output_file_path.
     (case image_save L fs original_image output_file_path of
        (fs', Some e) \<Rightarrow> ([SaveCall output_file_path], fs', Inl e)
      | (fs', None) \<Rightarrow>
          ([SaveCall output_file_path,
            Printed (saved_line (str_of watermark_path) (str_of file_name) (str_of position))],
           fs',
           (case print_line L fs'
                   (saved_line (str_of watermark_path) (str_of file_name) (str_of position)) of
              None \<Rightarrow> Inr ()
            | Some e \<Rightarrow> Inl e))))))))))"

text \<open>The \<open>try\<close> body of \<open>add_watermark\<close>: the type checks, the position check, the two
  \<open>Image.open\<close> calls of the \<open>with\<close> statement and its body.\<close>

definition add_watermark_body ::
  "('img, 'fs) image_library \<Rightarrow> 'fs \<Rightarrow> pyval \<Rightarrow> pyval \<Rightarrow> pyval \<Rightarrow> pyval \<Rightarrow> pyval \<Rightarrow> pyval
     \<Rightarrow> ('fs, unit) step" where
  "add_watermark_body L fs image_path watermark_path output_path position scale_factor file_name =
     (if \<not> is_str image_path then ([], fs, Inl (TypeError ''image_path must be a string.''))
      else if \<not> is_str watermark_path then
        ([], fs, Inl (TypeError ''watermark_path must be a string.''))
      else if \<not> is_str output_path then
        ([], fs, Inl (TypeError ''output_path must be a string.''))
      else if \<not> is_str position then ([], fs, Inl (TypeError ''position must be a string.''))
      else if \<not> is_float scale_factor then
        ([], fs, Inl (TypeError ''scale_factor must be a float.''))
      else if \<not> is_str file_name then ([], fs, Inl (TypeError ''file_name must be a string.''))
      else if str_of position \<notin> set valid_positions then
        ([], fs, Inl (ValueError invalid_position_value_message))
      else
        then_do ([OpenCall (str_of image_path)], fs, image_open L fs (str_of image_path))
          (\<lambda>fs original_image.
        then_do ([OpenCall (str_of watermark_path)], fs,
                 image_open L fs (str_of watermark_path))
          (\<lambda>fs watermark.
        composite L fs original_image watermark watermark_path output_path position scale_factor
          file_name)))"

text \<open>
  \<open>add_watermark\<close> itself. Its result is the events, the state of the world and the
  exception that left the function, if any. The handlers print one line for the exception
  that ended the body; that \<open>print\<close> stands outside the \<open>try\<close>, so an exception it raises
  leaves the function. Otherwise the function returns \<open>None\<close>.
\<close>

definition add_watermark ::
  "('img, 'fs) image_library \<Rightarrow> 'fs \<Rightarrow> pyval \<Rightarrow> pyval \<Rightarrow> pyval \<Rightarrow> pyval \<Rightarrow> pyval \<Rightarrow> pyval
     \<Rightarrow> event list \<times> 'fs \<times> exn option" where
  "add_watermark L fs image_path watermark_path output_path position scale_factor file_name =
     (case add_watermark_body L fs image_path watermark_path output_path position scale_factor
             file_name of
        (evs, fs', Inl e) \<Rightarrow>
          (evs @ [Printed (handler_line e)], fs', print_line L fs' (handler_line e))
      | (evs, fs', Inr u) \<Rightarrow> (evs, fs', None))"

section \<open>Batch driver\<close>

definition IMAGE_FILE_EXTENSIONS :: "string list" where
  "IMAGE_FILE_EXTENSIONS = [''.jpg'', ''.jpeg'', ''.png'', ''.gif'', ''.bmp'']"

text \<open>\<open>str.lower\<close> on ASCII letters, and \<open>str.endswith\<close> for one suffix and for a tuple
  of suffixes.\<close>

definition lower_char :: "char \<Rightarrow> char" where
  "lower_char c =
     (case map_of (zip ''ABCDEFGHIJKLMNOPQRSTUVWXYZ'' ''abcdefghijklmnopqrstuvwxyz'') c of
        Some d \<Rightarrow> d
      | None \<Rightarrow> c)"

definition lower :: "string \<Rightarrow> string" where
  "lower s = map lower_char s"

definition endswith :: "string \<Rightarrow> string \<Rightarrow> bool" where
  "endswith s ext = (take (length ext) (rev s) = rev ext)"

definition endswith_any :: "string \<Rightarrow> string list \<Rightarrow> bool" where
  "endswith_any s exts = list_ex (endswith s) exts"

text \<open>What the batch driver does: the directory listing, the calls of \<open>print\<close> in its own
  handlers, and each call of \<open>add_watermark\<close> with its \<open>image_path\<close>, its \<open>file_name\<close> and
  the events of that call.\<close>

datatype batch_event =
    ListdirCall string
  | BatchPrinted string
  | AddWatermarkCall string string "event list"

text \<open>The \<open>for\<close> loop over the listing. An exception that leaves \<open>add_watermark\<close> leaves
  the loop.\<close>

fun process_entries ::
  "('img, 'fs) image_library \<Rightarrow> 'fs \<Rightarrow> string \<Rightarrow> string list \<Rightarrow> pyval \<Rightarrow> pyval \<Rightarrow> pyval \<Rightarrow> pyval
     \<Rightarrow> batch_event list \<times> 'fs \<times> exn option" where
  "process_entries L fs directory [] watermark_path output_path position scale_factor =
     ([], fs, None)"
| "process_entries L fs directory (filename # rest) watermark_path output_path position
     scale_factor =
     (let filepath = os_path_join directory filename in
      if endswith_any (lower filepath) IMAGE_FILE_EXTENSIONS then
        (case add_watermark L fs (PyStr filepath) watermark_path output_path position
                scale_factor (PyStr (os_path_basename filepath)) of
           (evs, fs1, Some e) \<Rightarrow>
             ([AddWatermarkCall filepath (os_path_basename filepath) evs], fs1, Some e)
         | (evs, fs1, None) \<Rightarrow>
             (case process_entries L fs1 directory rest watermark_path output_path position
                     scale_factor of
                (later, fs2, out) \<Rightarrow>
                  (AddWatermarkCall filepath (os_path_basename filepath) evs # later, fs2, out)))
      else process_entries L fs directory rest watermark_path output_path position
             scale_factor)"

text \<open>The handlers of \<open>add_watermarks_to_directory\<close> have no \<open>ValueError\<close> clause.\<close>

fun directory_line :: "exn \<Rightarrow> string" where
  "directory_line (TypeError m) = ''TypeError: '' @ m"
| "directory_line e = ''Error: '' @ message e"

text \<open>
  \<open>add_watermarks_to_directory\<close>: the type check, the listing and the loop stand in one
  \<open>try\<close>; the handlers print one line for the exception that ended it, and an exception
  raised by that \<open>print\<close> leaves the function.
\<close>

definition add_watermarks_to_directory ::
  "('img, 'fs) image_library \<Rightarrow> 'fs \<Rightarrow> pyval \<Rightarrow> pyval \<Rightarrow> pyval \<Rightarrow> pyval \<Rightarrow> pyval
     \<Rightarrow> batch_event list \<times> 'fs \<times> exn option" where
  "add_watermarks_to_directory L fs directory watermark_path output_path position scale_factor =
     (if \<not> is_str directory then
        ([BatchPrinted (directory_line (TypeError ''directory must be a string.''))], fs,
         print_line L fs (directory_line (TypeError ''directory must be a string.'')))
      else
        (case listdir L fs (str_of directory) of
           Inl e \<Rightarrow>
             ([ListdirCall (str_of directory), BatchPrinted (directory_line e)], fs,
              print_line L fs (directory_line e))
         | Inr names \<Rightarrow>
             (case process_entries L fs (str_of directory) names watermark_path output_path
                     position scale_factor of
                (evs, fs', None) \<Rightarrow> (ListdirCall (str_of directory) # evs, fs', None)
              | (evs, fs', Some e) \<Rightarrow>
                  (ListdirCall (str_of directory) # evs @ [BatchPrinted (directory_line e)], fs',
                   print_line L fs' (directory_line e)))))"

section \<open>A small library for examples\<close>

text \<open>
  A concrete library on which the functions can be run: a file system is an association
  list from paths to nodes, an image is just its size, resizing demands a pair of positive
  integers, pasting keeps the size of the base image, saving needs a path and \<open>print\<close>
  never raises. \<open>ascii_library\<close> differs in its console alone, which raises on a line with
  a character outside ASCII.
\<close>

datatype node = ImageFile "int \<times> int" | OtherFile | Directory "string list"

type_synonym files = "(string \<times> node) list"

definition size_library :: "(int \<times> int, files) image_library" where
  "size_library =
     \<lparr> image_open = (\<lambda>fs p.
         (case map_of fs p of
            Some (ImageFile sz) \<Rightarrow> Inr sz
          | Some OtherFile \<Rightarrow> Inl (OtherError (''cannot identify image file '' @ p))
          | Some (Directory names) \<Rightarrow> Inl (OtherError (''Is a directory: '' @ p))
          | None \<Rightarrow> Inl (OtherError (''No such file or directory: '' @ p)))),
       image_size = (\<lambda>img. img),
       image_resize = (\<lambda>img v.
         (case v of
            PyTuple [PyInt w, PyInt h] \<Rightarrow>
              if 0 < w \<and> 0 < h then Inr (w, h)
              else Inl (ValueError ''height and width must be > 0'')
          | _ \<Rightarrow> Inl (TypeError ''size must be a pair of integers''))),
       grayscale = Inr,
       invert = Inr,
       image_paste = (\<lambda>img watermark box mask. Inr img),
       image_save = (\<lambda>fs img p.
         (case p of
            Some path \<Rightarrow> ((path, ImageFile img) # fs, None)
          | None \<Rightarrow> (fs, Some (ValueError ''unknown file extension'')))),
       listdir = (\<lambda>fs p.
         (case map_of fs p of
            Some (Directory names) \<Rightarrow> Inr names
          | _ \<Rightarrow> Inl (OtherError (''Not a directory: '' @ p)))),
       print_line = (\<lambda>fs line. None) \<rparr>"

definition ascii_print :: "string \<Rightarrow> exn option" where
  "ascii_print line =
     (if list_all (\<lambda>c. (of_char c :: nat) < 128) line then None
      else Some (ValueError (quoted ''ascii'' @ '' codec can'' @ apostrophe
                               @ ''t encode the line'')))"

definition ascii_library :: "(int \<times> int, files) image_library" where
  "ascii_library = size_library \<lparr> print_line := (\<lambda>fs line. ascii_print line) \<rparr>"

definition example_files :: files where
  "example_files =
     [(''photos'', Directory [''a.png'', ''b.txt'', ''c.JPG'', ''sub'']),
      (''photos/a.png'', OtherFile),
      (''photos/b.txt'', OtherFile),
      (''photos/c.JPG'', ImageFile (200, 100)),
      (''photos/sub'', Directory []),
      (''logo.png'', ImageFile (50, 50))]"

text \<open>A directory whose first entry is a subdirectory named like an image, and one whose
  first entry is a corrupt file with a name outside ASCII.\<close>

definition album_files :: files where
  "album_files =
     [(''album'', Directory [''dir.png'', ''notes'']),
      (''album/dir.png'', Directory []),
      (''album/notes'', Directory []),
      (''logo.png'', ImageFile (50, 50))]"

definition cafe_png :: string where
  "cafe_png = ''caf'' @ [CHR 0xE9] @ ''.png''"

definition cafe_files :: files where
  "cafe_files =
     [(''photos'', Directory [cafe_png, ''c.JPG'']),
      (''photos/'' @ cafe_png, OtherFile),
      (''photos/c.JPG'', ImageFile (200, 100)),
      (''logo.png'', ImageFile (50, 50))]"

definition half :: pyfloat where
  "half = Finite 1 (- 1)"

definition third :: pyfloat where
  "third = Finite 6004799503160661 (- 54)"

section \<open>Notions the properties are stated with\<close>

text \<open>The rational number a finite float denotes, and truncation toward zero of a
  rational number.\<close>

definition float_value :: "pyfloat \<Rightarrow> rat" where
  "float_value x =
     (case x of
        Finite m e \<Rightarrow> (if 0 \<le> e then of_int m * 2 ^ nat e else of_int m / 2 ^ nat (- e))
      | _ \<Rightarrow> 0)"

definition trunc :: "rat \<Rightarrow> int" where
  "trunc x = (if 0 \<le> x then \<lfloor>x\<rfloor> else \<lceil>x\<rceil>)"

text \<open>The float product \<open>w * s\<close> of an integer and a float is finite: the conversion of
  \<open>w\<close> to float does not overflow, and neither does the product.\<close>

definition finite_product :: "int \<Rightarrow> pyfloat \<Rightarrow> bool" where
  "finite_product w s =
     (case mul_by_float (PyInt w) s of
        Inr (Finite a i) \<Rightarrow> True
      | _ \<Rightarrow> False)"

text \<open>A directory entry is an image by its name: the lowercased name ends with one of the
  recognised extensions.\<close>

definition image_name :: "string \<Rightarrow> bool" where
  "image_name name = endswith_any (lower name) IMAGE_FILE_EXTENSIONS"

text \<open>
  Applying the compositor to every entry of a list of names, one after the other, each on
  the state of the world its predecessor left: the path of an entry is the directory
  joined with its name, the output file name is the base name of that path. An exception
  that leaves one application ends the sequence.
\<close>

fun apply_compositor ::
  "('img, 'fs) image_library \<Rightarrow> 'fs \<Rightarrow> string \<Rightarrow> string list \<Rightarrow> pyval \<Rightarrow> pyval \<Rightarrow> pyval \<Rightarrow> pyval
     \<Rightarrow> batch_event list \<times> 'fs \<times> exn option" where
  "apply_compositor L fs directory [] watermark_path output_path position scale_factor =
     ([], fs, None)"
| "apply_compositor L fs directory (name # rest) watermark_path output_path position
     scale_factor =
     (case add_watermark L fs (PyStr (os_path_join directory name)) watermark_path output_path
             position scale_factor (PyStr (os_path_basename (os_path_join directory name))) of
        (evs, fs1, Some e) \<Rightarrow>
          ([AddWatermarkCall (os_path_join directory name)
              (os_path_basename (os_path_join directory name)) evs], fs1, Some e)
      | (evs, fs1, None) \<Rightarrow>
          (case apply_compositor L fs1 directory rest watermark_path output_path position
                  scale_factor of
             (later, fs2, out) \<Rightarrow>
               (AddWatermarkCall (os_path_join directory name)
                  (os_path_basename (os_path_join directory name)) evs # later, fs2, out)))"

text \<open>The calls of the compositor in a batch run, in order, each with its \<open>image_path\<close>
  and \<open>file_name\<close>; and the directory listings of the run.\<close>

fun compositor_calls :: "batch_event list \<Rightarrow> (string \<times> string) list" where
  "compositor_calls [] = []"
| "compositor_calls (AddWatermarkCall p f evs # rest) = (p, f) # compositor_calls rest"
| "compositor_calls (ev # rest) = compositor_calls rest"

fun listings :: "batch_event list \<Rightarrow> string list" where
  "listings [] = []"
| "listings (ListdirCall d # rest) = d # listings rest"
| "listings (ev # rest) = listings rest"

section \<open>Properties of offset\<close>

lemma floor_half: "\<lfloor>(of_int d :: rat) / 2\<rfloor> = d div 2"
  using floor_divide_of_int_eq [where ?'a = rat, of d 2] by simp

lemma half_bounds: "0 \<le> (d::int) \<Longrightarrow> 0 \<le> d div 2 \<and> d div 2 \<le> d"
  by presburger

text \<open>
  Claim C1. For every base size \<open>(bw, bh)\<close> and watermark size \<open>(ww, wh)\<close>, offset returns
  \<open>(0, 0)\<close> for top-left, \<open>(0, bh - wh)\<close> for bottom-left, \<open>(bw - ww, 0)\<close> for top-right,
  \<open>(bw - ww, bh - wh)\<close> for bottom-right and the floor halves
  \<open>((bw - ww) div 2, (bh - wh) div 2)\<close> for center.
\<close>

theorem offset_per_position:
  "offset (bw, bh) (ww, wh) (PyStr ''top-left'') = Inr (0, 0) \<and>
   offset (bw, bh) (ww, wh) (PyStr ''bottom-left'') = Inr (0, bh - wh) \<and>
   offset (bw, bh) (ww, wh) (PyStr ''top-right'') = Inr (bw - ww, 0) \<and>
   offset (bw, bh) (ww, wh) (PyStr ''bottom-right'') = Inr (bw - ww, bh - wh) \<and>
   offset (bw, bh) (ww, wh) (PyStr ''center'') =
     Inr (\<lfloor>(of_int (bw - ww) :: rat) / 2\<rfloor>, \<lfloor>(of_int (bh - wh) :: rat) / 2\<rfloor>)"
  unfolding floor_half by (simp add: offset_def)

text \<open>
  Claim C2. When the watermark is no wider and no higher than the base image, the offset
  \<open>(x, y)\<close> of each of the five positions satisfies \<open>0 \<le> x\<close>, \<open>0 \<le> y\<close>,
  \<open>x + ww \<le> bw\<close> and \<open>y + wh \<le> bh\<close>: the watermark lies within the base image.
\<close>

theorem offset_within_bounds:
  assumes "ww \<le> bw" and "wh \<le> bh" and "p \<in> set valid_positions"
  shows "\<exists>x y. offset (bw, bh) (ww, wh) (PyStr p) = Inr (x, y) \<and>
           0 \<le> x \<and> 0 \<le> y \<and> x + ww \<le> bw \<and> y + wh \<le> bh"
proof -
  have horizontal: "0 \<le> (bw - ww) div 2 \<and> (bw - ww) div 2 + ww \<le> bw"
    using assms(1) half_bounds [of "bw - ww"] by simp
  have vertical: "0 \<le> (bh - wh) div 2 \<and> (bh - wh) div 2 + wh \<le> bh"
    using assms(2) half_bounds [of "bh - wh"] by simp
  from assms(3) consider "p = ''top-left''" | "p = ''bottom-left''" | "p = ''top-right''"
    | "p = ''bottom-right''" | "p = ''center''"
    unfolding valid_positions_def by fastforce
  then show ?thesis
  proof cases
    case 1
    then show ?thesis using assms(1,2) by (simp add: offset_def)
  next
    case 2
    then show ?thesis using assms(1,2) by (simp add: offset_def)
  next
    case 3
    then show ?thesis using assms(1,2) by (simp add: offset_def)
  next
    case 4
    then show ?thesis using assms(1,2) by (simp add: offset_def)
  next
    case 5
    then show ?thesis using horizontal vertical by (simp add: offset_def)
  qed
qed

theorem offset_within_bounds_witness:
  "(51::int) \<le> 200 \<and> (51::int) \<le> 100 \<and> ''center'' \<in> set valid_positions \<and>
   (\<exists>x y. offset (200, 100) (51, 51) (PyStr ''center'') = Inr (x, y) \<and>
      0 \<le> x \<and> 0 \<le> y \<and> x + 51 \<le> 200 \<and> y + 51 \<le> 100) \<and>
   offset (200, 100) (51, 51) (PyStr ''center'') = Inr (74, 24)"
  using offset_within_bounds [of 51 200 51 100 "''center''"]
  by (simp add: valid_positions_def offset_def)

section \<open>Properties of resize\<close>

lemma floor_div_pow: "\<lfloor>(of_int a :: rat) / 2 ^ k\<rfloor> = a div 2 ^ k"
  using floor_divide_of_int_eq [where ?'a = rat, of a "2 ^ k"] by simp

lemma int_of_float_truncates:
  "int_of_float (Finite m e) = Inr (trunc (float_value (Finite m e)))"
proof (cases "0 \<le> e")
  case True
  have npos: "\<not> (2::rat) ^ nat e \<le> 0"
    by (simp add: not_le)
  have "0 \<le> (of_int m :: rat) * 2 ^ nat e \<longleftrightarrow> 0 \<le> m"
    by (simp add: zero_le_mult_iff npos)
  moreover have "(of_int m :: rat) * 2 ^ nat e = of_int (m * 2 ^ nat e)" by simp
  ultimately show ?thesis using True
    by (simp add: trunc_def float_value_def del: of_int_mult of_int_power)
next
  case False
  define k where "k = nat (- e)"
  have npos: "\<not> (2::rat) ^ k \<le> 0"
    by (simp add: not_le)
  have sign: "0 \<le> (of_int m :: rat) / 2 ^ k \<longleftrightarrow> 0 \<le> m"
    by (simp add: zero_le_divide_iff npos)
  show ?thesis
  proof (cases "0 \<le> m")
    case True
    then have "sgn m * (\<bar>m\<bar> div 2 ^ k) = m div 2 ^ k"
      by (cases "m = 0") (simp_all add: sgn_if)
    then show ?thesis using False True sign
      by (simp add: trunc_def float_value_def floor_div_pow k_def)
  next
    case neg: False
    have "\<lceil>(of_int m :: rat) / 2 ^ k\<rceil> = - \<lfloor>(of_int (- m) :: rat) / 2 ^ k\<rfloor>"
      by (simp add: ceiling_def)
    also have "\<dots> = - ((- m) div 2 ^ k)"
      by (simp only: floor_div_pow)
    finally have "\<lceil>(of_int m :: rat) / 2 ^ k\<rceil> = sgn m * (\<bar>m\<bar> div 2 ^ k)"
      using neg by (simp add: sgn_if)
    then show ?thesis using False neg sign
      by (simp add: trunc_def float_value_def k_def)
  qed
qed

lemma scaled_finite:
  "mul_by_float x f = Inr (Finite a i) \<Longrightarrow> scaled x f = Inr (trunc (float_value (Finite a i)))"
  by (simp add: scaled_def int_of_float_truncates del: int_of_float.simps)

lemmas float_eval =
  float_of_int_def round_binary64_def round_half_even_def bit_length.simps Let_def

lemma product_200_half: "mul_by_float (PyInt 200) half = Inr (Finite 7036874417766400 (- 46))"
  by (simp add: half_def float_eval)

lemma product_100_half: "mul_by_float (PyInt 100) half = Inr (Finite 7036874417766400 (- 47))"
  by (simp add: half_def float_eval)

lemma product_101_third: "mul_by_float (PyInt 101) third = Inr (Finite 4738162107962709 (- 47))"
  by (simp add: third_def float_eval)

lemma scaled_200_half: "scaled (PyInt 200) half = Inr 100"
  unfolding scaled_def product_200_half by simp

lemma scaled_100_half: "scaled (PyInt 100) half = Inr 50"
  unfolding scaled_def product_100_half by simp

lemma scaled_101_third: "scaled (PyInt 101) third = Inr 33"
  unfolding scaled_def product_101_third by simp

lemma resize_200_100_half:
  "resize (PyTuple [PyInt 200, PyInt 100]) (PyFloat half) = Inr (PyTuple [PyInt 100, PyInt 50])"
  by (simp add: resize_def scaled_200_half scaled_100_half) (simp add: half_def)

lemma resize_101_third:
  "resize (PyTuple [PyInt 101, PyInt 101]) (PyFloat third) = Inr (PyTuple [PyInt 33, PyInt 33])"
  by (simp add: resize_def scaled_101_third) (simp add: third_def)

text \<open>
  Rounding is exact on a value that needs at most 53 bits: the result is the same number,
  its significand shifted by some power of two.
\<close>

lemma bit_length_0: "bit_length 0 = 0"
  by (simp add: bit_length.simps)

lemma bit_length_step: "n \<noteq> 0 \<Longrightarrow> bit_length n = 1 + bit_length (\<bar>n\<bar> div 2)"
  by (subst bit_length.simps) simp

lemma bit_length_abs: "bit_length \<bar>n\<bar> = bit_length n"
  by (cases "n = 0") (simp_all add: bit_length_step)

lemma bit_length_double: "n \<noteq> 0 \<Longrightarrow> bit_length (2 * n) = 1 + bit_length n"
proof -
  assume "n \<noteq> 0"
  then have "bit_length (2 * n) = 1 + bit_length (\<bar>2 * n\<bar> div 2)"
    by (simp add: bit_length_step)
  also have "\<bar>2 * n\<bar> div 2 = \<bar>n\<bar>"
    by (simp add: abs_mult)
  finally show ?thesis by (simp add: bit_length_abs)
qed

lemma bit_length_shift: "n \<noteq> 0 \<Longrightarrow> bit_length (n * 2 ^ k) = bit_length n + int k"
proof (induction k)
  case 0
  then show ?case by simp
next
  case (Suc k)
  have "n * 2 ^ k \<noteq> 0" using Suc.prems by simp
  then have "bit_length (2 * (n * 2 ^ k)) = 1 + bit_length (n * 2 ^ k)"
    by (rule bit_length_double)
  moreover have "n * 2 ^ Suc k = 2 * (n * 2 ^ k)" by simp
  ultimately have "bit_length (n * 2 ^ Suc k) = 1 + bit_length (n * 2 ^ k)"
    by (simp only:)
  then show ?case using Suc by simp
qed

lemma bit_length_le: "\<bar>n\<bar> < 2 ^ k \<Longrightarrow> bit_length n \<le> int k"
proof (induction k arbitrary: n)
  case 0
  then have "n = 0" by simp
  then show ?case by (simp add: bit_length_0)
next
  case (Suc k)
  show ?case
  proof (cases "n = 0")
    case True
    then show ?thesis by (simp add: bit_length_0)
  next
    case False
    have "\<bar>n\<bar> div 2 < 2 ^ k" using Suc.prems by simp
    moreover have "0 \<le> \<bar>n\<bar> div 2" by simp
    ultimately have "\<bar>\<bar>n\<bar> div 2\<bar> < 2 ^ k" by simp
    then have "bit_length (\<bar>n\<bar> div 2) \<le> int k" by (rule Suc.IH)
    then show ?thesis using False by (simp add: bit_length_step)
  qed
qed

lemma round_half_even_exact: "round_half_even (c * 2 ^ s) s = c"
  by (cases s) (simp_all add: round_half_even_def Let_def)

lemma round_binary64_exact:
  assumes "c \<noteq> 0" and "\<bar>c\<bar> < 2 ^ 53" and "- 1074 \<le> E + int k" and "E + int k \<le> 971"
  shows "\<exists>j. round_binary64 (c * 2 ^ k) E = Finite (c * 2 ^ j) (E + int k - int j)"
proof -
  define M where "M = c * 2 ^ k"
  define q where "q = max (bit_length M + E - 53) (- 1074)"
  have M0: "M \<noteq> 0" using assms(1) by (simp add: M_def)
  have "bit_length M = bit_length c + int k"
    unfolding M_def using assms(1) by (rule bit_length_shift)
  moreover have "bit_length c \<le> 53"
    using bit_length_le [OF assms(2)] by simp
  ultimately have q_le: "q \<le> E + int k"
    using assms(3) by (simp add: q_def)
  define r where "r = (if q \<le> E then M * 2 ^ nat (E - q) else round_half_even M (nat (q - E)))"
  have "\<exists>j. r = c * 2 ^ j \<and> q = E + int k - int j"
  proof (cases "q \<le> E")
    case True
    then have "r = c * 2 ^ (k + nat (E - q))"
      by (simp add: r_def M_def power_add)
    moreover have "q = E + int k - int (k + nat (E - q))"
      using True by simp
    ultimately show ?thesis by blast
  next
    case False
    define s where "s = nat (q - E)"
    have s: "int s = q - E" "s \<le> k" using False q_le by (simp_all add: s_def)
    then have "M = (c * 2 ^ (k - s)) * 2 ^ s"
      by (simp add: M_def power_add [symmetric])
    then have "round_half_even M s = c * 2 ^ (k - s)"
      by (simp only: round_half_even_exact)
    then have "r = c * 2 ^ (k - s)"
      using False by (simp add: r_def s_def)
    moreover have "q = E + int k - int (k - s)"
      using s by simp
    ultimately show ?thesis by blast
  qed
  then obtain j where j: "r = c * 2 ^ j" "q = E + int k - int j" by blast
  have finite: "\<not> (0 \<le> q \<and> 2 ^ 1024 \<le> \<bar>r\<bar> * 2 ^ nat q)"
  proof
    assume over: "0 \<le> q \<and> 2 ^ 1024 \<le> \<bar>r\<bar> * 2 ^ nat q"
    then have q0: "0 \<le> q" and big: "(2::int) ^ 1024 \<le> \<bar>r\<bar> * 2 ^ nat q"
      by blast+
    from q0 have "int (j + nat q) = E + int k" using j(2) by simp
    then have sum: "j + nat q = nat (E + int k)" by linarith
    have "\<bar>r\<bar> * 2 ^ nat q = \<bar>c\<bar> * (2 ^ j * 2 ^ nat q)"
      using j(1) by (simp add: abs_mult)
    also have "\<dots> = \<bar>c\<bar> * 2 ^ nat (E + int k)"
      by (simp only: power_add [symmetric] sum)
    also have "\<dots> < 2 ^ 53 * 2 ^ nat (E + int k)"
      using assms(2) by (simp del: power_numeral)
    also have "\<dots> \<le> 2 ^ 53 * (2::int) ^ 971"
    proof -
      have "nat (E + int k) \<le> 971" using assms(4) by simp
      then have "(2::int) ^ nat (E + int k) \<le> 2 ^ 971"
        by (rule power_increasing) simp
      then show ?thesis by (rule mult_left_mono) simp
    qed
    also have "\<dots> = (2::int) ^ 1024"
      by (simp only: power_add [symmetric]) simp
    finally show False using big by simp
  qed
  have "round_binary64 M E = Finite r q"
    using M0 finite unfolding round_binary64_def r_def q_def Let_def by simp
  then show ?thesis using j by (auto simp: M_def)
qed


lemma float_of_int_exact:
  assumes "w \<noteq> 0" and "\<bar>w\<bar> < 2 ^ 53"
  shows "\<exists>j. float_of_int w = Inr (Finite (w * 2 ^ j) (- int j))"
proof -
  obtain j where "round_binary64 (w * 2 ^ 0) 0 = Finite (w * 2 ^ j) (0 + int 0 - int j)"
    using round_binary64_exact [OF assms, of 0 0] by auto
  then have "round_binary64 w 0 = Finite (w * 2 ^ j) (- int j)" by simp
  then show ?thesis by (auto simp: float_of_int_def)
qed

lemma mul_by_float_exact:
  assumes "w \<noteq> 0" and "m \<noteq> 0" and "\<bar>w * m\<bar> < 2 ^ 53" and "- 1074 \<le> e" and "e \<le> 971"
  shows "\<exists>j. mul_by_float (PyInt w) (Finite m e) = Inr (Finite (w * m * 2 ^ j) (e - int j))"
proof -
  have "1 \<le> \<bar>m\<bar>" using assms(2) by simp
  then have "\<bar>w\<bar> * 1 \<le> \<bar>w\<bar> * \<bar>m\<bar>" by (intro mult_left_mono) simp_all
  then have "\<bar>w\<bar> < 2 ^ 53" using assms(3) by (simp add: abs_mult)
  then obtain i where conv: "float_of_int w = Inr (Finite (w * 2 ^ i) (- int i))"
    using float_of_int_exact [OF assms(1)] by blast
  have nz: "w * m \<noteq> 0" using assms(1,2) by simp
  have range: "- 1074 \<le> (e - int i) + int i" "(e - int i) + int i \<le> 971"
    using assms(4,5) by simp_all
  obtain j where "round_binary64 (w * m * 2 ^ i) (e - int i) =
      Finite (w * m * 2 ^ j) ((e - int i) + int i - int j)"
    using round_binary64_exact [OF nz assms(3) range] by blast
  moreover have "w * 2 ^ i * m = w * m * 2 ^ i" by simp
  moreover have "- int i + e = e - int i" by simp
  ultimately have "float_mul (Finite (w * 2 ^ i) (- int i)) (Finite m e) =
      Finite (w * m * 2 ^ j) (e - int j)"
    by (simp only: float_mul.simps) simp
  then show ?thesis using conv by auto
qed

lemma float_value_powi: "float_value (Finite m e) = of_int m * power_int 2 e"
  by (simp add: float_value_def power_int_def power_one_over)

lemma float_value_shift:
  "float_value (Finite (c * 2 ^ j) (e - int j)) = float_value (Finite c e)"
proof -
  have "power_int (2::rat) (e - int j) = power_int 2 e / power_int 2 (int j)"
    by (rule power_int_diff) simp
  then show ?thesis by (simp add: float_value_powi)
qed

lemma float_value_times:
  "float_value (Finite (w * m) e) = of_int w * float_value (Finite m e)"
  by (simp add: float_value_powi)

lemma float_value_nonneg: "0 \<le> m \<Longrightarrow> 0 \<le> float_value (Finite m e)"
  by (simp add: float_value_powi)

lemma scaled_exact:
  assumes "0 < w" and "0 < m" and "w * m < 2 ^ 53" and "- 1074 \<le> e" and "e \<le> 971"
  shows "scaled (PyInt w) (Finite m e) = Inr \<lfloor>of_int w * float_value (Finite m e)\<rfloor>"
proof -
  have "0 < w * m" using assms(1,2) by simp
  then have "\<bar>w * m\<bar> < 2 ^ 53" using assms(3) by simp
  then obtain j where product:
      "mul_by_float (PyInt w) (Finite m e) = Inr (Finite (w * m * 2 ^ j) (e - int j))"
    using mul_by_float_exact [of w m e] assms by auto
  have "float_value (Finite (w * m * 2 ^ j) (e - int j)) = of_int w * float_value (Finite m e)"
    using float_value_shift [of "w * m" j e] float_value_times [of w m e] by simp
  moreover have "0 \<le> of_int w * float_value (Finite m e)"
    using assms(1,2) float_value_nonneg [of m e] by simp
  ultimately show ?thesis
    using scaled_finite [OF product] by (simp add: trunc_def)
qed

text \<open>
  Where the exact products \<open>w * m\<close> and \<open>h * m\<close> of the dimensions with the significand
  of the scale factor fit into 53 bits, no rounding takes place: resize returns the floors
  of the exact products \<open>w * s\<close> and \<open>h * s\<close>. At the default scale \<open>0.5\<close> this covers every
  size below \<open>2 ^ 53\<close>.
\<close>

lemma resize_exact:
  assumes "0 < w" and "0 < h" and "0 < m" and "w * m < 2 ^ 53" and "h * m < 2 ^ 53"
    and "- 1074 \<le> e" and "e \<le> 971"
  shows "resize (PyTuple [PyInt w, PyInt h]) (PyFloat (Finite m e)) =
           Inr (PyTuple [PyInt \<lfloor>of_int w * float_value (Finite m e)\<rfloor>,
                         PyInt \<lfloor>of_int h * float_value (Finite m e)\<rfloor>])"
  using assms(3) scaled_exact [OF assms(1,3,4,6,7)] scaled_exact [OF assms(2,3,5,6,7)]
  by (simp add: resize_def)

lemma resize_by_half:
  assumes "0 < w" and "0 < h" and "w < 2 ^ 53" and "h < 2 ^ 53"
  shows "resize (PyTuple [PyInt w, PyInt h]) (PyFloat half) =
           Inr (PyTuple [PyInt (w div 2), PyInt (h div 2)])"
  using resize_exact [of w h 1 "- 1"] assms
  by (simp add: half_def float_value_def floor_half)

lemma round_binary64_cases:
  "(\<exists>r q. round_binary64 m e = Finite r q) \<or> round_binary64 m e = PosInf \<or>
   round_binary64 m e = NegInf"
  by (simp add: round_binary64_def Let_def)

lemma mul_by_float_cases:
  "mul_by_float (PyInt w) (Finite m e) = Inl (OtherError ''int too large to convert to float'') \<or>
   (\<exists>a i. mul_by_float (PyInt w) (Finite m e) = Inr (Finite a i)) \<or>
   mul_by_float (PyInt w) (Finite m e) = Inr PosInf \<or>
   mul_by_float (PyInt w) (Finite m e) = Inr NegInf"
proof (cases "round_binary64 w 0")
  case (Finite r q)
  then have "mul_by_float (PyInt w) (Finite m e) = Inr (round_binary64 (r * m) (q + e))"
    by (simp add: float_of_int_def)
  then show ?thesis
    using round_binary64_cases [of "r * m" "q + e"] by auto
qed (simp_all add: float_of_int_def)

lemma finite_product_iff:
  "finite_product w s \<longleftrightarrow> (\<exists>a i. mul_by_float (PyInt w) s = Inr (Finite a i))"
  by (auto simp: finite_product_def split: sum.splits pyfloat.splits)

lemma scaled_overflow:
  assumes "\<not> finite_product w (Finite m e)"
  shows "scaled (PyInt w) (Finite m e) = Inl (OtherError ''int too large to convert to float'') \<or>
         scaled (PyInt w) (Finite m e) =
           Inl (OtherError ''cannot convert float infinity to integer'')"
  using assms mul_by_float_cases [of w m e]
  by (auto simp: finite_product_iff scaled_def)

lemma scaled_cases:
  "(\<exists>x. scaled (PyInt w) (Finite m e) = Inr x) \<or>
   scaled (PyInt w) (Finite m e) = Inl (OtherError ''int too large to convert to float'') \<or>
   scaled (PyInt w) (Finite m e) = Inl (OtherError ''cannot convert float infinity to integer'')"
  using mul_by_float_cases [of w m e] by (auto simp: scaled_def)

text \<open>
  Claim C4. For a finite scale factor \<open>s = m * 2 ^ e > 0\<close> and a size \<open>(w, h)\<close> whose float
  products \<open>w * s\<close> and \<open>h * s\<close> are finite, resize returns the two products truncated
  toward zero (not rounded): \<open>resize((200, 100), 0.5)\<close> is \<open>(100, 50)\<close> and
  \<open>resize((101, 101), 1/3)\<close> is \<open>(33, 33)\<close>. When the conversion of a dimension to float or
  one of the products overflows, resize raises \<open>OverflowError\<close>, which it reports, and returns
  no size.
\<close>

theorem resize_truncates:
  assumes "0 < m"
  shows "(mul_by_float (PyInt w) (Finite m e) = Inr (Finite a i) \<longrightarrow>
          mul_by_float (PyInt h) (Finite m e) = Inr (Finite b j) \<longrightarrow>
          resize (PyTuple [PyInt w, PyInt h]) (PyFloat (Finite m e)) =
            Inr (PyTuple [PyInt (trunc (float_value (Finite a i))),
                          PyInt (trunc (float_value (Finite b j)))])) \<and>
         (finite_product w (Finite m e) \<and> finite_product h (Finite m e) \<longleftrightarrow>
            (\<exists>a i b j. mul_by_float (PyInt w) (Finite m e) = Inr (Finite a i) \<and>
                       mul_by_float (PyInt h) (Finite m e) = Inr (Finite b j))) \<and>
         (\<not> (finite_product w (Finite m e) \<and> finite_product h (Finite m e)) \<longrightarrow>
            (resize (PyTuple [PyInt w, PyInt h]) (PyFloat (Finite m e)) =
               Inl (OtherError ''int too large to convert to float'') \<or>
             resize (PyTuple [PyInt w, PyInt h]) (PyFloat (Finite m e)) =
               Inl (OtherError ''cannot convert float infinity to integer'')) \<and>
            returned (resize (PyTuple [PyInt w, PyInt h]) (PyFloat (Finite m e))) = None)"
proof (intro conjI impI)
  assume "mul_by_float (PyInt w) (Finite m e) = Inr (Finite a i)"
    and "mul_by_float (PyInt h) (Finite m e) = Inr (Finite b j)"
  then show "resize (PyTuple [PyInt w, PyInt h]) (PyFloat (Finite m e)) =
            Inr (PyTuple [PyInt (trunc (float_value (Finite a i))),
                          PyInt (trunc (float_value (Finite b j)))])"
    using assms scaled_finite [of "PyInt w" "Finite m e" a i]
      scaled_finite [of "PyInt h" "Finite m e" b j]
    by (simp add: resize_def)
next
  show "finite_product w (Finite m e) \<and> finite_product h (Finite m e) \<longleftrightarrow>
            (\<exists>a i b j. mul_by_float (PyInt w) (Finite m e) = Inr (Finite a i) \<and>
                       mul_by_float (PyInt h) (Finite m e) = Inr (Finite b j))"
    by (auto simp: finite_product_iff)
next
  assume overflow: "\<not> (finite_product w (Finite m e) \<and> finite_product h (Finite m e))"
  have failed: "resize (PyTuple [PyInt w, PyInt h]) (PyFloat (Finite m e)) =
               Inl (OtherError ''int too large to convert to float'') \<or>
             resize (PyTuple [PyInt w, PyInt h]) (PyFloat (Finite m e)) =
               Inl (OtherError ''cannot convert float infinity to integer'')"
  proof (cases "finite_product w (Finite m e)")
    case False
    then show ?thesis
      using assms scaled_overflow [of w m e] by (auto simp: resize_def)
  next
    case True
    then obtain a i where "mul_by_float (PyInt w) (Finite m e) = Inr (Finite a i)"
      by (auto simp: finite_product_iff)
    then have width: "scaled (PyInt w) (Finite m e) = Inr (trunc (float_value (Finite a i)))"
      by (rule scaled_finite)
    from True overflow have "\<not> finite_product h (Finite m e)" by simp
    then show ?thesis
      using assms width scaled_overflow [of h m e] by (auto simp: resize_def)
  qed
  then show "resize (PyTuple [PyInt w, PyInt h]) (PyFloat (Finite m e)) =
               Inl (OtherError ''int too large to convert to float'') \<or>
             resize (PyTuple [PyInt w, PyInt h]) (PyFloat (Finite m e)) =
               Inl (OtherError ''cannot convert float infinity to integer'')" .
  from failed show "returned (resize (PyTuple [PyInt w, PyInt h]) (PyFloat (Finite m e))) = None"
    by (auto simp: returned_def)
qed

lemma huge_int_does_not_convert:
  "float_of_int (2 ^ 1024) = Inl (OtherError ''int too large to convert to float'')"
proof -
  define n :: int where "n = 2 ^ 1024"
  have "bit_length 1 = 1"
    by (simp add: bit_length.simps)
  then have length: "bit_length n = 1025"
    unfolding n_def using bit_length_shift [of 1 1024] by simp
  have "n = 2 ^ 52 * 2 ^ 972"
    unfolding n_def by (simp only: power_add [symmetric]) simp
  then have rounded: "round_half_even n 972 = 2 ^ 52"
    by (simp only: round_half_even_exact)
  have nonzero: "n \<noteq> 0" and positive: "0 < n"
    unfolding n_def by simp_all
  have "round_binary64 n 0 = PosInf"
    unfolding round_binary64_def Let_def length using nonzero positive
    by (simp add: rounded)
  then show ?thesis
    unfolding n_def by (simp add: float_of_int_def)
qed

theorem resize_truncates_witness:
  "(0::int) < 1 \<and> (0::int) < 6004799503160661 \<and> (0::int) < 5010420900022432 \<and>
   mul_by_float (PyInt 200) (Finite 1 (- 1)) = Inr (Finite 7036874417766400 (- 46)) \<and>
   mul_by_float (PyInt 100) (Finite 1 (- 1)) = Inr (Finite 7036874417766400 (- 47)) \<and>
   mul_by_float (PyInt 101) (Finite 6004799503160661 (- 54)) =
     Inr (Finite 4738162107962709 (- 47)) \<and>
   resize (PyTuple [PyInt 200, PyInt 100]) (PyFloat (Finite 1 (- 1))) =
     Inr (PyTuple [PyInt (trunc (float_value (Finite 7036874417766400 (- 46)))),
                   PyInt (trunc (float_value (Finite 7036874417766400 (- 47))))]) \<and>
   resize (PyTuple [PyInt 200, PyInt 100]) (PyFloat (Finite 1 (- 1))) =
     Inr (PyTuple [PyInt 100, PyInt 50]) \<and>
   resize (PyTuple [PyInt 101, PyInt 101]) (PyFloat (Finite 6004799503160661 (- 54))) =
     Inr (PyTuple [PyInt (trunc (float_value (Finite 4738162107962709 (- 47)))),
                   PyInt (trunc (float_value (Finite 4738162107962709 (- 47))))]) \<and>
   resize (PyTuple [PyInt 101, PyInt 101]) (PyFloat (Finite 6004799503160661 (- 54))) =
     Inr (PyTuple [PyInt 33, PyInt 33]) \<and>
   \<not> finite_product 200 (Finite 5010420900022432 971) \<and>
   returned (resize (PyTuple [PyInt 200, PyInt 100]) (PyFloat (Finite 5010420900022432 971))) =
     None \<and>
   \<not> finite_product (2 ^ 1024) (Finite 1 (- 1)) \<and>
   returned (resize (PyTuple [PyInt (2 ^ 1024), PyInt 100]) (PyFloat (Finite 1 (- 1)))) = None"
proof -
  have a: "mul_by_float (PyInt 200) (Finite 1 (- 1)) = Inr (Finite 7036874417766400 (- 46))"
    using product_200_half by (simp add: half_def)
  have b: "mul_by_float (PyInt 100) (Finite 1 (- 1)) = Inr (Finite 7036874417766400 (- 47))"
    using product_100_half by (simp add: half_def)
  have c: "mul_by_float (PyInt 101) (Finite 6004799503160661 (- 54)) =
     Inr (Finite 4738162107962709 (- 47))"
    using product_101_third by (simp add: third_def)
  have d: "resize (PyTuple [PyInt 200, PyInt 100]) (PyFloat (Finite 1 (- 1))) =
     Inr (PyTuple [PyInt 100, PyInt 50])"
    using resize_200_100_half by (simp add: half_def)
  have e: "resize (PyTuple [PyInt 101, PyInt 101]) (PyFloat (Finite 6004799503160661 (- 54))) =
     Inr (PyTuple [PyInt 33, PyInt 33])"
    using resize_101_third by (simp add: third_def)
  have f: "\<not> finite_product 200 (Finite 5010420900022432 971)"
    by (simp add: finite_product_def float_eval)
  have g: "\<not> finite_product (2 ^ 1024) (Finite 1 (- 1))"
    by (simp only: finite_product_def mul_by_float.simps huge_int_does_not_convert sum.case)
      simp
  have one: "(0::int) < 1" and big: "(0::int) < 5010420900022432"
    and third: "(0::int) < 6004799503160661"
    by simp_all
  note halves = resize_truncates [OF one, of 200 "- 1" 7036874417766400 "- 46" 100
      7036874417766400 "- 47"]
  note thirds = resize_truncates [OF third, of 101 "- 54" 4738162107962709 "- 47" 101
      4738162107962709 "- 47"]
  note product = resize_truncates [OF big, of 200 971 0 0 100 0 0]
  note conversion = resize_truncates [OF one, of "2 ^ 1024" "- 1" 0 0 100 0 0]
  from halves a b have h: "resize (PyTuple [PyInt 200, PyInt 100]) (PyFloat (Finite 1 (- 1))) =
     Inr (PyTuple [PyInt (trunc (float_value (Finite 7036874417766400 (- 46)))),
                   PyInt (trunc (float_value (Finite 7036874417766400 (- 47))))])"
    by blast
  from thirds c have t:
    "resize (PyTuple [PyInt 101, PyInt 101]) (PyFloat (Finite 6004799503160661 (- 54))) =
     Inr (PyTuple [PyInt (trunc (float_value (Finite 4738162107962709 (- 47)))),
                   PyInt (trunc (float_value (Finite 4738162107962709 (- 47))))])"
    by blast
  from product f have p:
    "returned (resize (PyTuple [PyInt 200, PyInt 100]) (PyFloat (Finite 5010420900022432 971))) =
     None"
    by blast
  from conversion g have q:
    "returned (resize (PyTuple [PyInt (2 ^ 1024), PyInt 100]) (PyFloat (Finite 1 (- 1)))) = None"
    by blast
  from one third big a b c h d t e f p g q show ?thesis
    by (intro conjI)
qed

text \<open>
  The products are float products. A positive scale factor whose product with a dimension
  overflows makes \<open>int\<close> raise \<open>OverflowError\<close>, which resize reports and swallows:
  \<open>resize((200, 100), 1e308)\<close> returns \<open>None\<close>, where \<open>1e308\<close> is the float
  \<open>5010420900022432 * 2 ^ 971\<close>.
\<close>

theorem resize_overflow_counterexample:
  "(0::int) < 5010420900022432 \<and>
   resize (PyTuple [PyInt 200, PyInt 100]) (PyFloat (Finite 5010420900022432 971)) =
     Inl (OtherError ''cannot convert float infinity to integer'') \<and>
   returned (resize (PyTuple [PyInt 200, PyInt 100]) (PyFloat (Finite 5010420900022432 971))) =
     None"
  by (simp add: resize_def scaled_def returned_def float_eval)

text \<open>
  The float product is rounded before it is truncated. \<open>3 * (1/3)\<close> rounds to \<open>1.0\<close>, so
  \<open>resize((3, 3), 1/3)\<close> is \<open>(1, 1)\<close>, although the float \<open>1/3\<close> is less than a third and
  the exact product is less than one.
\<close>

lemma resize_3_third:
  "resize (PyTuple [PyInt 3, PyInt 3]) (PyFloat third) = Inr (PyTuple [PyInt 1, PyInt 1]) \<and>
   \<lfloor>3 * float_value third\<rfloor> = 0"
proof -
  have "scaled (PyInt 3) third = Inr 1"
    by (simp add: scaled_def third_def float_eval)
  then have "resize (PyTuple [PyInt 3, PyInt 3]) (PyFloat third) =
      Inr (PyTuple [PyInt 1, PyInt 1])"
    by (simp add: resize_def) (simp add: third_def)
  moreover have "\<lfloor>3 * float_value third\<rfloor> = 0"
    by (simp add: float_value_def third_def floor_eq_iff)
  ultimately show ?thesis by blast
qed

text \<open>
  Claim C5. For every size tuple and every scale factor \<open>\<le> 0\<close>, zero included, resize
  fails and returns no size: a float raises \<open>ValueError\<close>, an \<open>int\<close> is rejected before
  the comparison with \<open>TypeError\<close>.
\<close>

theorem resize_rejects_nonpositive:
  assumes "m \<le> 0" and "n \<le> 0"
  shows "resize (PyTuple dims) (PyFloat (Finite m e)) =
           Inl (ValueError ''scale_factor must be greater than 0.'') \<and>
         resize (PyTuple dims) (PyFloat NegInf) =
           Inl (ValueError ''scale_factor must be greater than 0.'') \<and>
         resize (PyTuple dims) (PyInt n) = Inl (TypeError ''scale_factor must be a float.'') \<and>
         returned (resize (PyTuple dims) (PyFloat (Finite m e))) = None \<and>
         returned (resize (PyTuple dims) (PyInt n)) = None"
  using assms(1) by (simp add: resize_def returned_def)

theorem resize_rejects_nonpositive_witness:
  "(0::int) \<le> 0 \<and> (- 3::int) \<le> 0 \<and>
   resize (PyTuple [PyInt 200, PyInt 100]) (PyFloat (Finite 0 0)) =
     Inl (ValueError ''scale_factor must be greater than 0.'') \<and>
   resize (PyTuple [PyInt 200, PyInt 100]) (PyFloat (Finite (- 3) (- 1))) =
     Inl (ValueError ''scale_factor must be greater than 0.'') \<and>
   resize (PyTuple [PyInt 200, PyInt 100]) (PyInt (- 3)) =
     Inl (TypeError ''scale_factor must be a float.'')"
  using resize_rejects_nonpositive [of 0 "- 3" "[PyInt 200, PyInt 100]" 0]
    resize_rejects_nonpositive [of "- 3" "- 3" "[PyInt 200, PyInt 100]" "- 1"]
  by simp

text \<open>
  Claim C10. resize and add_watermark demand a scale factor of type float: an \<open>int\<close>, such
  as \<open>1\<close>, makes each of them raise \<open>TypeError\<close>; resize returns nothing and add_watermark
  only prints the error, whatever the other arguments are: its single event is that
  \<open>print\<close>, and the state of the world is left as it was.
\<close>

theorem scale_factor_must_be_float:
  "resize (PyTuple dims) (PyInt n) = Inl (TypeError ''scale_factor must be a float.'') \<and>
   (\<exists>msg. resize any_size (PyInt n) = Inl (TypeError msg)) \<and>
   add_watermark L fs (PyStr image_path) (PyStr watermark_path) (PyStr output_path)
       (PyStr position) (PyInt n) file_name =
     ([Printed ''TypeError: scale_factor must be a float.''], fs,
      print_line L fs ''TypeError: scale_factor must be a float.'') \<and>
   (\<exists>msg. add_watermark L fs any_image_path any_watermark_path any_output_path any_position
             (PyInt n) any_file_name =
           ([Printed (''TypeError: '' @ msg)], fs, print_line L fs (''TypeError: '' @ msg))) \<and>
   resize (PyTuple [PyInt 200, PyInt 100]) (PyInt 1) =
     Inl (TypeError ''scale_factor must be a float.'')"
  by (simp add: resize_def add_watermark_def add_watermark_body_def)

section \<open>Properties of the path builder\<close>

text \<open>
  Claim C6. For non-empty strings build_output_path returns the output directory joined
  with \<open>watermarked_\<close> followed by the file name, so
  \<open>build_output_path("cat.png", "/out")\<close> is \<open>/out/watermarked_cat.png\<close>; on string arguments
  it fails exactly when one of them is empty. The result is a function of the two arguments
  alone and no file is touched; on non-empty arguments nothing is printed, and on an empty
  one the handler prints the line \<open>ValueError: file_name and output_path cannot be empty
  strings.\<close>
\<close>

theorem build_output_path_contract:
  "build_output_path (PyStr file_name) (PyStr output_directory) =
     (if file_name = [] \<or> output_directory = []
      then Inl (ValueError ''file_name and output_path cannot be empty strings.'')
      else Inr (os_path_join output_directory (''watermarked_'' @ file_name))) \<and>
   os_path_join output_directory (''watermarked_'' @ file_name) =
     (if output_directory = [] \<or> last output_directory = CHR ''/''
      then output_directory @ ''watermarked_'' @ file_name
      else output_directory @ ''/'' @ ''watermarked_'' @ file_name) \<and>
   printed handler_line (build_output_path (PyStr file_name) (PyStr output_directory)) =
     (if file_name = [] \<or> output_directory = []
      then [''ValueError: file_name and output_path cannot be empty strings.'']
      else []) \<and>
   build_output_path (PyStr ''cat.png'') (PyStr ''/out'') = Inr ''/out/watermarked_cat.png''"
  by (simp add: build_output_path_def os_path_join_def printed_def)

text \<open>With an empty file name the function writes to the console: the report of its own
  \<open>ValueError\<close>.\<close>

theorem build_output_path_prints_counterexample:
  "build_output_path (PyStr []) (PyStr ''/out'') =
     Inl (ValueError ''file_name and output_path cannot be empty strings.'') \<and>
   printed handler_line (build_output_path (PyStr []) (PyStr ''/out'')) =
     [''ValueError: file_name and output_path cannot be empty strings.''] \<and>
   printed handler_line (build_output_path (PyStr []) (PyStr ''/out'')) \<noteq> []"
  by (simp add: build_output_path_def printed_def)

section \<open>Properties of the compositor\<close>

text \<open>
  Claim C3. For every position string outside the five valid ones, offset raises
  \<open>ValueError\<close> (reported, no offset returned), and add_watermark stops at its own
  position check: its single event is the \<open>print\<close> of the error, it makes no library call,
  so neither pastes nor saves, and leaves the state of the world as it was.
\<close>

theorem invalid_position_rejected:
  assumes "position \<notin> set valid_positions"
  shows "offset original_size watermark_size (PyStr position) =
           Inl (ValueError invalid_position_message) \<and>
         add_watermark L fs (PyStr image_path) (PyStr watermark_path) (PyStr output_path)
             (PyStr position) (PyFloat scale) (PyStr file_name) =
           ([Printed (''ValueError: '' @ invalid_position_value_message)], fs,
            print_line L fs (''ValueError: '' @ invalid_position_value_message)) \<and>
         (\<exists>line. add_watermark L fs any_image_path any_watermark_path any_output_path
                    (PyStr position) any_scale any_file_name =
                  ([Printed line], fs, print_line L fs line)) \<and>
         filter is_paste_or_save
           (fst (add_watermark L fs any_image_path any_watermark_path any_output_path
                   (PyStr position) any_scale any_file_name)) = []"
proof -
  have a: "offset original_size watermark_size (PyStr position) =
           Inl (ValueError invalid_position_message)"
    using assms by (auto simp: offset_def valid_positions_def)
  have b: "add_watermark L fs (PyStr image_path) (PyStr watermark_path) (PyStr output_path)
             (PyStr position) (PyFloat scale) (PyStr file_name) =
           ([Printed (''ValueError: '' @ invalid_position_value_message)], fs,
            print_line L fs (''ValueError: '' @ invalid_position_value_message))"
    using assms by (simp add: add_watermark_def add_watermark_body_def)
  have c: "\<exists>line. add_watermark L fs any_image_path any_watermark_path any_output_path
                    (PyStr position) any_scale any_file_name =
                  ([Printed line], fs, print_line L fs line)"
    using assms by (simp add: add_watermark_def add_watermark_body_def)
  then obtain line where "add_watermark L fs any_image_path any_watermark_path any_output_path
                    (PyStr position) any_scale any_file_name =
                  ([Printed line], fs, print_line L fs line)" ..
  then have d: "filter is_paste_or_save
           (fst (add_watermark L fs any_image_path any_watermark_path any_output_path
                   (PyStr position) any_scale any_file_name)) = []"
    by simp
  from a b c d show ?thesis by blast
qed

theorem invalid_position_rejected_witness:
  "''middle'' \<notin> set valid_positions \<and>
   offset (200, 100) (50, 50) (PyStr ''middle'') = Inl (ValueError invalid_position_message) \<and>
   add_watermark size_library example_files (PyStr ''photos/c.JPG'') (PyStr ''logo.png'')
       (PyStr ''out'') (PyStr ''middle'') (PyFloat half) (PyStr ''c.JPG'') =
     ([Printed (''ValueError: '' @ invalid_position_value_message)], example_files, None) \<and>
   filter is_paste_or_save
     (fst (add_watermark size_library example_files (PyStr ''photos/c.JPG'') (PyStr ''logo.png'')
             (PyStr ''out'') (PyStr ''middle'') (PyFloat half) (PyStr ''c.JPG''))) = []"
proof -
  have "''middle'' \<notin> set valid_positions"
    by (simp add: valid_positions_def)
  from this
    invalid_position_rejected [OF this, where original_size = "(200, 100)"
      and watermark_size = "(50, 50)" and L = size_library and fs = example_files
      and image_path = "''photos/c.JPG''" and watermark_path = "''logo.png''"
      and output_path = "''out''" and scale = half and file_name = "''c.JPG''"
      and any_image_path = "PyStr ''photos/c.JPG''" and any_watermark_path = "PyStr ''logo.png''"
      and any_output_path = "PyStr ''out''" and any_scale = "PyFloat half"
      and any_file_name = "PyStr ''c.JPG''"]
  show ?thesis
    by (simp add: size_library_def)
qed

lemma then_do_Inr:
  "then_do (evs, fs, Inr a) k = (case k fs a of (evs', fs', r) \<Rightarrow> (evs @ evs', fs', r))"
  by (simp add: then_do_def)

lemma then_do_events: "\<exists>rest. fst (then_do (evs, fs, r) k) = evs @ rest"
  by (cases r) (auto simp: then_do_def split: prod.splits)

lemma report_Inr: "report L fs line (Inr v) = ([], fs, Inr (Some v))"
  by (simp add: report_def)

lemma composite_events:
  assumes "resize (size_value (image_size L original)) sf = Inr target"
  shows "\<exists>rest. fst (composite L fs original watermark wp op pos sf fn) =
           ResizeCall target # rest"
proof -
  have "\<exists>rest. fst (composite L fs original watermark wp op pos sf fn) =
          [ResizeCall target] @ rest"
    unfolding composite_def assms report_Inr then_do_Inr
    using then_do_events [where evs = "[ResizeCall target]"]
    by (auto simp: or_none_def split: prod.splits)
  then show ?thesis by simp
qed

lemma add_watermark_events:
  assumes "position \<in> set valid_positions"
    and "image_open L fs image_path = Inr original"
    and "image_open L fs watermark_path = Inr watermark"
    and "resize (size_value (image_size L original)) (PyFloat scale) = Inr target"
  shows "\<exists>rest. fst (add_watermark L fs (PyStr image_path) (PyStr watermark_path)
                   (PyStr output_path) (PyStr position) (PyFloat scale) (PyStr file_name)) =
           OpenCall image_path # OpenCall watermark_path # ResizeCall target # rest"
proof -
  obtain evs fs' r where c: "composite L fs original watermark (PyStr watermark_path)
      (PyStr output_path) (PyStr position) (PyFloat scale) (PyStr file_name) = (evs, fs', r)"
    by (cases "composite L fs original watermark (PyStr watermark_path)
      (PyStr output_path) (PyStr position) (PyFloat scale) (PyStr file_name)")
  obtain rest where rest: "evs = ResizeCall target # rest"
    using composite_events [OF assms(4), of fs watermark "PyStr watermark_path"
        "PyStr output_path" "PyStr position" "PyStr file_name"] c by auto
  have body: "add_watermark_body L fs (PyStr image_path) (PyStr watermark_path)
      (PyStr output_path) (PyStr position) (PyFloat scale) (PyStr file_name) =
      (OpenCall image_path # OpenCall watermark_path # evs, fs', r)"
    using assms(1,2,3) c by (simp add: add_watermark_body_def then_do_Inr)
  show ?thesis
  proof (cases r)
    case (Inl e)
    then show ?thesis using body rest by (simp add: add_watermark_def)
  next
    case (Inr u)
    then show ?thesis using body rest by (simp add: add_watermark_def)
  qed
qed

text \<open>
  Claim C9. In the compositor the scale factor multiplies the size of the original image,
  not the watermark's own: with both images open, a valid position and finite float
  products \<open>w * s\<close>, \<open>h * s\<close> of the original's width and height, the watermark is
  resized to \<open>(trunc(w * s), trunc(h * s))\<close>, whatever size the watermark has.
\<close>

theorem watermark_scaled_from_original_size:
  assumes "position \<in> set valid_positions"
    and "image_open L fs image_path = Inr original"
    and "image_open L fs watermark_path = Inr watermark"
    and "image_size L original = (w, h)"
    and "0 < m"
    and "mul_by_float (PyInt w) (Finite m e) = Inr (Finite a i)"
    and "mul_by_float (PyInt h) (Finite m e) = Inr (Finite b j)"
  shows "\<exists>rest. fst (add_watermark L fs (PyStr image_path) (PyStr watermark_path)
                   (PyStr output_path) (PyStr position) (PyFloat (Finite m e))
                   (PyStr file_name)) =
           OpenCall image_path # OpenCall watermark_path
             # ResizeCall (PyTuple [PyInt (trunc (float_value (Finite a i))),
                                    PyInt (trunc (float_value (Finite b j)))])
             # rest"
proof -
  have "resize (size_value (image_size L original)) (PyFloat (Finite m e)) =
          Inr (PyTuple [PyInt (trunc (float_value (Finite a i))),
                        PyInt (trunc (float_value (Finite b j)))])"
    using assms(5) scaled_finite [OF assms(6)] scaled_finite [OF assms(7)]
    by (simp add: resize_def size_value_def assms(4))
  then show ?thesis
    by (rule add_watermark_events [OF assms(1,2,3)])
qed

theorem watermark_scaled_from_original_size_witness:
  "''center'' \<in> set valid_positions \<and>
   image_open size_library example_files ''photos/c.JPG'' = Inr (200, 100) \<and>
   image_open size_library example_files ''logo.png'' = Inr (50, 50) \<and>
   image_size size_library (200, 100) = (200, 100) \<and>
   (0::int) < 1 \<and>
   mul_by_float (PyInt 200) (Finite 1 (- 1)) = Inr (Finite 7036874417766400 (- 46)) \<and>
   mul_by_float (PyInt 100) (Finite 1 (- 1)) = Inr (Finite 7036874417766400 (- 47)) \<and>
   (\<exists>rest. fst (add_watermark size_library example_files (PyStr ''photos/c.JPG'')
                   (PyStr ''logo.png'') (PyStr ''out'') (PyStr ''center'')
                   (PyFloat (Finite 1 (- 1))) (PyStr ''c.JPG'')) =
           OpenCall ''photos/c.JPG'' # OpenCall ''logo.png''
             # ResizeCall (PyTuple [PyInt (trunc (float_value (Finite 7036874417766400 (- 46)))),
                                    PyInt (trunc (float_value (Finite 7036874417766400 (- 47))))])
             # rest)"
proof -
  have position: "''center'' \<in> set valid_positions"
    by (simp add: valid_positions_def)
  have original: "image_open size_library example_files ''photos/c.JPG'' = Inr (200, 100)"
    by (simp add: size_library_def example_files_def)
  have watermark: "image_open size_library example_files ''logo.png'' = Inr (50, 50)"
    by (simp add: size_library_def example_files_def)
  have size: "image_size size_library (200, 100) = (200, 100)"
    by (simp add: size_library_def)
  have scale: "(0::int) < 1"
    by simp
  have width: "mul_by_float (PyInt 200) (Finite 1 (- 1)) = Inr (Finite 7036874417766400 (- 46))"
    using product_200_half by (simp add: half_def)
  have height: "mul_by_float (PyInt 100) (Finite 1 (- 1)) = Inr (Finite 7036874417766400 (- 47))"
    using product_100_half by (simp add: half_def)
  from position original watermark size scale width height
    watermark_scaled_from_original_size [OF position original watermark size scale width height,
      of "''out''" "''c.JPG''"]
  show ?thesis
    by (intro conjI)
qed

text \<open>
  An original of 200 by 100 and a watermark of 50 by 50 at scale \<open>0.5\<close>: the watermark is
  resized to \<open>(100, 50)\<close>, half the original, and not to \<open>(25, 25)\<close>, half of its own
  size.
\<close>

lemma example_run:
  "add_watermark size_library example_files (PyStr ''photos/c.JPG'') (PyStr ''logo.png'')
     (PyStr ''out'') (PyStr ''center'') (PyFloat half) (PyStr ''c.JPG'') =
     ([OpenCall ''photos/c.JPG'', OpenCall ''logo.png'',
       ResizeCall (PyTuple [PyInt 100, PyInt 50]), GrayscaleCall, InvertCall,
       PasteCall (Some (50, 25)), SaveCall (Some ''out/watermarked_c.JPG''),
       Printed ''Saved watermark (logo.png) to image (c.JPG) at (center) position''],
      (''out/watermarked_c.JPG'', ImageFile (200, 100)) # example_files, None)"
proof -
  have opened: "image_open size_library example_files ''photos/c.JPG'' = Inr (200, 100)"
    "image_open size_library example_files ''logo.png'' = Inr (50, 50)"
    by (simp_all add: size_library_def example_files_def)
  have target: "resize (size_value (200, 100)) (PyFloat half) = Inr (PyTuple [PyInt 100, PyInt 50])"
    using resize_200_100_half by (simp add: size_value_def)
  have parts: "image_size size_library = (\<lambda>img. img)"
    "image_resize size_library (50, 50) (PyTuple [PyInt 100, PyInt 50]) = Inr (100, 50)"
    "grayscale size_library = Inr" "invert size_library = Inr"
    "image_paste size_library = (\<lambda>img watermark box mask. Inr img)"
    "image_save size_library example_files (200, 100) (Some ''out/watermarked_c.JPG'') =
       ((''out/watermarked_c.JPG'', ImageFile (200, 100)) # example_files, None)"
    "print_line size_library = (\<lambda>fs line. None)"
    by (simp_all add: size_library_def)
  have place: "offset (200, 100) (100, 50) (PyStr ''center'') = Inr (50, 25)"
    by (simp add: offset_def)
  have path: "build_output_path (PyStr ''c.JPG'') (PyStr ''out'') = Inr ''out/watermarked_c.JPG''"
    by (simp add: build_output_path_def os_path_join_def)
  show ?thesis
    by (simp add: add_watermark_def add_watermark_body_def valid_positions_def then_do_Inr
        composite_def opened target parts place path report_Inr or_none_def saved_line_def)
qed

theorem watermark_size_unused_counterexample:
  "image_open size_library example_files ''photos/c.JPG'' = Inr (200, 100) \<and>
   image_open size_library example_files ''logo.png'' = Inr (50, 50) \<and>
   resize (size_value (50, 50)) (PyFloat half) = Inr (PyTuple [PyInt 25, PyInt 25]) \<and>
   fst (add_watermark size_library example_files (PyStr ''photos/c.JPG'') (PyStr ''logo.png'')
          (PyStr ''out'') (PyStr ''center'') (PyFloat half) (PyStr ''c.JPG'')) =
     [OpenCall ''photos/c.JPG'', OpenCall ''logo.png'',
      ResizeCall (PyTuple [PyInt 100, PyInt 50]), GrayscaleCall, InvertCall,
      PasteCall (Some (50, 25)), SaveCall (Some ''out/watermarked_c.JPG''),
      Printed ''Saved watermark (logo.png) to image (c.JPG) at (center) position''] \<and>
   ResizeCall (PyTuple [PyInt 25, PyInt 25]) \<notin>
     set (fst (add_watermark size_library example_files (PyStr ''photos/c.JPG'')
                 (PyStr ''logo.png'') (PyStr ''out'') (PyStr ''center'') (PyFloat half)
                 (PyStr ''c.JPG'')))"
proof -
  have "resize (size_value (50, 50)) (PyFloat half) = Inr (PyTuple [PyInt 25, PyInt 25])"
    by (simp add: resize_def size_value_def scaled_def half_def float_eval)
  moreover have "image_open size_library example_files ''photos/c.JPG'' = Inr (200, 100)"
    "image_open size_library example_files ''logo.png'' = Inr (50, 50)"
    by (simp_all add: size_library_def example_files_def)
  ultimately show ?thesis
    by (simp add: example_run)
qed


section \<open>Properties of the batch driver\<close>

text \<open>The test on the joined path decides by the name alone: the character before the
  name is a separator, which no extension contains.\<close>

lemma endswith_short: "length s < length ext \<Longrightarrow> \<not> endswith s ext"
proof
  assume short: "length s < length ext" and "endswith s ext"
  then have "length (take (length ext) (rev s)) = length (rev ext)"
    by (simp add: endswith_def)
  with short show False by simp
qed

lemma endswith_append:
  assumes "p \<noteq> []" and "last p \<notin> set ext"
  shows "endswith (p @ s) ext = endswith s ext"
proof (cases "length ext \<le> length s")
  case True
  then show ?thesis by (simp add: endswith_def)
next
  case False
  then have short: "length s < length ext" by simp
  have "\<not> endswith (p @ s) ext"
  proof
    assume "endswith (p @ s) ext"
    then have eq: "rev ext = rev s @ take (length ext - length s) (rev p)"
      using short by (simp add: endswith_def)
    from assms(1) have "p = butlast p @ [last p]" by simp
    then have "rev p = rev (butlast p @ [last p])" by simp
    then have revp: "rev p = last p # rev (butlast p)" by simp
    from short have "length ext - length s = Suc (length ext - length s - 1)" by simp
    then have "take (length ext - length s) (rev p) =
                 last p # take (length ext - length s - 1) (rev (butlast p))"
      using revp by (metis take_Suc_Cons)
    with eq have "last p \<in> set (rev ext)" by simp
    with assms(2) show False by simp
  qed
  with endswith_short [OF short] show ?thesis by simp
qed

lemma lower_char_slash: "lower_char (CHR ''/'') = CHR ''/''"
  by (simp add: lower_char_def)

lemma lower_append: "lower (a @ b) = lower a @ lower b"
  by (simp add: lower_def)

lemma last_lower: "a \<noteq> [] \<Longrightarrow> last (lower a) = lower_char (last a)"
  by (simp add: lower_def last_map)

lemma endswith_lower_prefixed:
  assumes "CHR ''/'' \<notin> set ext" and "p \<noteq> []" and "last p = CHR ''/''"
  shows "endswith (lower (p @ name)) ext = endswith (lower name) ext"
proof -
  have "lower p \<noteq> []" using assms(2) by (simp add: lower_def)
  moreover have "last (lower p) \<notin> set ext"
    using assms by (simp add: last_lower lower_char_slash)
  ultimately have "endswith (lower p @ lower name) ext = endswith (lower name) ext"
    by (rule endswith_append)
  then show ?thesis by (simp add: lower_append)
qed

lemma endswith_join:
  assumes "CHR ''/'' \<notin> set ext"
  shows "endswith (lower (os_path_join directory name)) ext = endswith (lower name) ext"
proof -
  consider (absolute) "name \<noteq> [] \<and> hd name = CHR ''/''"
    | (plain) "\<not> (name \<noteq> [] \<and> hd name = CHR ''/'')" "directory = []"
    | (slash) "\<not> (name \<noteq> [] \<and> hd name = CHR ''/'')" "directory \<noteq> []"
        "last directory = CHR ''/''"
    | (sep) "\<not> (name \<noteq> [] \<and> hd name = CHR ''/'')" "directory \<noteq> []"
        "last directory \<noteq> CHR ''/''"
    by blast
  then show ?thesis
  proof cases
    case absolute
    then show ?thesis by (simp add: os_path_join_def)
  next
    case plain
    then show ?thesis by (simp add: os_path_join_def)
  next
    case slash
    then have "os_path_join directory name = directory @ name"
      by (simp add: os_path_join_def)
    then show ?thesis
      using endswith_lower_prefixed [OF assms slash(2,3)] by simp
  next
    case sep
    then have "os_path_join directory name = (directory @ ''/'') @ name"
      by (simp add: os_path_join_def)
    moreover have "endswith (lower ((directory @ ''/'') @ name)) ext = endswith (lower name) ext"
      by (rule endswith_lower_prefixed [OF assms]) simp_all
    ultimately show ?thesis by (simp only:)
  qed
qed

lemma image_name_join:
  "endswith_any (lower (os_path_join directory name)) IMAGE_FILE_EXTENSIONS = image_name name"
  by (simp add: image_name_def endswith_any_def IMAGE_FILE_EXTENSIONS_def endswith_join)

lemma process_entries_skip:
  "\<not> image_name name \<Longrightarrow>
   process_entries L fs directory (name # rest) wp op pos sf =
     process_entries L fs directory rest wp op pos sf"
  by (simp add: image_name_join)

lemma process_entries_take:
  "image_name name \<Longrightarrow>
   process_entries L fs directory (name # rest) wp op pos sf =
     (case add_watermark L fs (PyStr (os_path_join directory name)) wp op pos sf
             (PyStr (os_path_basename (os_path_join directory name))) of
        (evs, fs1, Some e) \<Rightarrow>
          ([AddWatermarkCall (os_path_join directory name)
              (os_path_basename (os_path_join directory name)) evs], fs1, Some e)
      | (evs, fs1, None) \<Rightarrow>
          (case process_entries L fs1 directory rest wp op pos sf of
             (later, fs2, out) \<Rightarrow>
               (AddWatermarkCall (os_path_join directory name)
                  (os_path_basename (os_path_join directory name)) evs # later, fs2, out)))"
  by (auto simp: image_name_join Let_def split: prod.splits option.splits)

lemma process_entries_apply_compositor:
  "process_entries L fs directory names wp op pos sf =
     apply_compositor L fs directory (filter image_name names) wp op pos sf"
proof (induction names arbitrary: fs)
  case Nil
  show ?case by simp
next
  case (Cons name rest)
  show ?case
  proof (cases "image_name name")
    case True
    then show ?thesis
      by (auto simp add: process_entries_take Cons.IH simp del: process_entries.simps
          split: prod.splits option.splits)
  next
    case False
    then show ?thesis
      by (simp add: process_entries_skip Cons.IH del: process_entries.simps)
  qed
qed

lemma apply_compositor_stop:
  assumes "add_watermark L fs (PyStr (os_path_join directory name)) wp op pos sf
             (PyStr (os_path_basename (os_path_join directory name))) = (evs, fs1, Some e)"
  shows "apply_compositor L fs directory (name # rest) wp op pos sf =
           ([AddWatermarkCall (os_path_join directory name)
               (os_path_basename (os_path_join directory name)) evs], fs1, Some e)"
  using assms by simp

lemma apply_compositor_go:
  assumes "add_watermark L fs (PyStr (os_path_join directory name)) wp op pos sf
             (PyStr (os_path_basename (os_path_join directory name))) = (evs, fs1, None)"
    and "apply_compositor L fs1 directory rest wp op pos sf = (later, fs2, out)"
  shows "apply_compositor L fs directory (name # rest) wp op pos sf =
           (AddWatermarkCall (os_path_join directory name)
              (os_path_basename (os_path_join directory name)) evs # later, fs2, out)"
  using assms by simp

lemma apply_compositor_cases:
  obtains (stop) evs fs1 e where
      "add_watermark L fs (PyStr (os_path_join directory name)) wp op pos sf
         (PyStr (os_path_basename (os_path_join directory name))) = (evs, fs1, Some e)"
      "apply_compositor L fs directory (name # rest) wp op pos sf =
         ([AddWatermarkCall (os_path_join directory name)
             (os_path_basename (os_path_join directory name)) evs], fs1, Some e)"
  | (go) evs fs1 later fs2 out where
      "add_watermark L fs (PyStr (os_path_join directory name)) wp op pos sf
         (PyStr (os_path_basename (os_path_join directory name))) = (evs, fs1, None)"
      "apply_compositor L fs1 directory rest wp op pos sf = (later, fs2, out)"
      "apply_compositor L fs directory (name # rest) wp op pos sf =
         (AddWatermarkCall (os_path_join directory name)
            (os_path_basename (os_path_join directory name)) evs # later, fs2, out)"
proof -
  obtain evs fs1 r where run: "add_watermark L fs (PyStr (os_path_join directory name)) wp op
      pos sf (PyStr (os_path_basename (os_path_join directory name))) = (evs, fs1, r)"
    by (cases "add_watermark L fs (PyStr (os_path_join directory name)) wp op
      pos sf (PyStr (os_path_basename (os_path_join directory name)))")
  show thesis
  proof (cases r)
    case (Some e)
    with run have "add_watermark L fs (PyStr (os_path_join directory name)) wp op
      pos sf (PyStr (os_path_basename (os_path_join directory name))) = (evs, fs1, Some e)"
      by simp
    from this apply_compositor_stop [OF this] show ?thesis by (rule stop)
  next
    case None
    obtain later fs2 out where
        tail: "apply_compositor L fs1 directory rest wp op pos sf = (later, fs2, out)"
      by (cases "apply_compositor L fs1 directory rest wp op pos sf")
    from run None have "add_watermark L fs (PyStr (os_path_join directory name)) wp op
      pos sf (PyStr (os_path_basename (os_path_join directory name))) = (evs, fs1, None)"
      by simp
    from this tail apply_compositor_go [OF this tail] show ?thesis by (rule go)
  qed
qed

lemma listings_apply_compositor:
  "listings (fst (apply_compositor L fs directory names wp op pos sf)) = []"
proof (induction names arbitrary: fs)
  case Nil
  show ?case by simp
next
  case (Cons name rest)
  show ?case
  proof (cases rule: apply_compositor_cases [of L fs directory name wp op pos sf rest])
    case (stop evs fs1 e)
    then show ?thesis by simp
  next
    case (go evs fs1 later fs2 out)
    then show ?thesis using Cons.IH [of fs1] by simp
  qed
qed

lemma compositor_calls_prefix:
  "\<exists>k. compositor_calls (fst (apply_compositor L fs directory names wp op pos sf)) =
     take k (map (\<lambda>name. (os_path_join directory name,
                            os_path_basename (os_path_join directory name))) names)"
proof (induction names arbitrary: fs)
  case Nil
  show ?case by simp
next
  case (Cons name rest)
  show ?case
  proof (cases rule: apply_compositor_cases [of L fs directory name wp op pos sf rest])
    case (stop evs fs1 e)
    then have "compositor_calls
        (fst (apply_compositor L fs directory (name # rest) wp op pos sf)) =
        take (Suc 0) (map (\<lambda>name. (os_path_join directory name,
                               os_path_basename (os_path_join directory name))) (name # rest))"
      by simp
    then show ?thesis by blast
  next
    case (go evs fs1 later fs2 out)
    obtain k where "compositor_calls (fst (apply_compositor L fs1 directory rest wp op pos sf)) =
        take k (map (\<lambda>name. (os_path_join directory name,
                               os_path_basename (os_path_join directory name))) rest)"
      using Cons.IH [of fs1] by blast
    then have "compositor_calls
        (fst (apply_compositor L fs directory (name # rest) wp op pos sf)) =
        take (Suc k) (map (\<lambda>name. (os_path_join directory name,
                               os_path_basename (os_path_join directory name))) (name # rest))"
      using go by simp
    then show ?thesis by blast
  qed
qed

lemma compositor_calls_complete:
  "snd (snd (apply_compositor L fs directory names wp op pos sf)) = None \<Longrightarrow>
   compositor_calls (fst (apply_compositor L fs directory names wp op pos sf)) =
     map (\<lambda>name. (os_path_join directory name,
                    os_path_basename (os_path_join directory name))) names"
proof (induction names arbitrary: fs)
  case Nil
  show ?case by simp
next
  case (Cons name rest)
  show ?case
  proof (cases rule: apply_compositor_cases [of L fs directory name wp op pos sf rest])
    case (stop evs fs1 e)
    then show ?thesis using Cons.prems by simp
  next
    case (go evs fs1 later fs2 out)
    then show ?thesis using Cons.prems Cons.IH [of fs1] by simp
  qed
qed

lemma add_watermark_returns:
  "(\<forall>fs line. print_line L fs line = None) \<Longrightarrow>
   snd (snd (add_watermark L fs ip wp op pos sf fn)) = None"
  by (simp add: add_watermark_def split: prod.splits sum.splits)

lemma apply_compositor_returns:
  assumes "\<forall>fs line. print_line L fs line = None"
  shows "snd (snd (apply_compositor L fs directory names wp op pos sf)) = None"
proof (induction names arbitrary: fs)
  case Nil
  show ?case by simp
next
  case (Cons name rest)
  show ?case
  proof (cases rule: apply_compositor_cases [of L fs directory name wp op pos sf rest])
    case (stop evs fs1 e)
    then show ?thesis
      using add_watermark_returns [OF assms, of fs "PyStr (os_path_join directory name)" wp op
        pos sf "PyStr (os_path_basename (os_path_join directory name))"] by simp
  next
    case (go evs fs1 later fs2 out)
    then show ?thesis using Cons.IH [of fs1] by simp
  qed
qed

text \<open>
  Claim C7. Given the listing of the directory, the batch driver applies the compositor,
  in listing order, to the entries whose lowercased name ends with one of \<open>.jpg\<close>,
  \<open>.jpeg\<close>, \<open>.png\<close>, \<open>.gif\<close>, \<open>.bmp\<close>, and to no other entry: its run is the
  compositor applied to the matching names one after the other, ended early only by an
  exception that leaves the compositor, so to all of them when no \<open>print\<close> raises. The
  test reads the name alone: an entry is processed or skipped by its name, be it a file or a
  subdirectory. A skipped entry leaves no trace, and the directory given is the only one
  ever listed.
\<close>

theorem batch_processes_image_names:
  assumes "listdir L fs directory = Inr names"
  shows "add_watermarks_to_directory L fs (PyStr directory) wp op pos sf =
           (case apply_compositor L fs directory (filter image_name names) wp op pos sf of
              (evs, fs', None) \<Rightarrow> (ListdirCall directory # evs, fs', None)
            | (evs, fs', Some e) \<Rightarrow>
                (ListdirCall directory # evs @ [BatchPrinted (directory_line e)], fs',
                 print_line L fs' (directory_line e))) \<and>
         (\<exists>k. compositor_calls
                (fst (add_watermarks_to_directory L fs (PyStr directory) wp op pos sf)) =
              take k (map (\<lambda>name. (os_path_join directory name,
                                     os_path_basename (os_path_join directory name)))
                        (filter image_name names))) \<and>
         ((\<forall>fs line. print_line L fs line = None) \<longrightarrow>
            compositor_calls
              (fst (add_watermarks_to_directory L fs (PyStr directory) wp op pos sf)) =
            map (\<lambda>name. (os_path_join directory name,
                           os_path_basename (os_path_join directory name)))
              (filter image_name names)) \<and>
         listings (fst (add_watermarks_to_directory L fs (PyStr directory) wp op pos sf)) =
           [directory]"
proof -
  obtain evs fs' out where run:
      "apply_compositor L fs directory (filter image_name names) wp op pos sf = (evs, fs', out)"
    by (cases "apply_compositor L fs directory (filter image_name names) wp op pos sf")
  have whole: "add_watermarks_to_directory L fs (PyStr directory) wp op pos sf =
      (case out of
         None \<Rightarrow> (ListdirCall directory # evs, fs', None)
       | Some e \<Rightarrow> (ListdirCall directory # evs @ [BatchPrinted (directory_line e)], fs',
                     print_line L fs' (directory_line e)))"
    using assms run
    by (simp add: add_watermarks_to_directory_def process_entries_apply_compositor
        split: option.splits)
  have calls: "compositor_calls (evs @ extra) = compositor_calls evs"
    if "compositor_calls extra = []" for extra
    using that by (induction evs rule: compositor_calls.induct) simp_all
  have lists: "listings (evs @ extra) = listings evs"
    if "listings extra = []" for extra
    using that by (induction evs rule: listings.induct) simp_all
  have trace_calls: "compositor_calls
      (fst (add_watermarks_to_directory L fs (PyStr directory) wp op pos sf)) =
      compositor_calls evs"
    unfolding whole by (cases out) (simp_all add: calls)
  have trace_lists: "listings
      (fst (add_watermarks_to_directory L fs (PyStr directory) wp op pos sf)) =
      directory # listings evs"
    unfolding whole by (cases out) (simp_all add: lists)
  have first: "add_watermarks_to_directory L fs (PyStr directory) wp op pos sf =
           (case apply_compositor L fs directory (filter image_name names) wp op pos sf of
              (evs, fs', None) \<Rightarrow> (ListdirCall directory # evs, fs', None)
            | (evs, fs', Some e) \<Rightarrow>
                (ListdirCall directory # evs @ [BatchPrinted (directory_line e)], fs',
                 print_line L fs' (directory_line e)))"
    unfolding whole run by (cases out) simp_all
  have second: "\<exists>k. compositor_calls
                (fst (add_watermarks_to_directory L fs (PyStr directory) wp op pos sf)) =
              take k (map (\<lambda>name. (os_path_join directory name,
                                     os_path_basename (os_path_join directory name)))
                        (filter image_name names))"
    unfolding trace_calls
    using compositor_calls_prefix [of L fs directory "filter image_name names" wp op pos sf] run
    by simp
  have third: "(\<forall>fs line. print_line L fs line = None) \<longrightarrow>
            compositor_calls
              (fst (add_watermarks_to_directory L fs (PyStr directory) wp op pos sf)) =
            map (\<lambda>name. (os_path_join directory name,
                           os_path_basename (os_path_join directory name)))
              (filter image_name names)"
  proof
    assume quiet: "\<forall>fs line. print_line L fs line = None"
    have "snd (snd (apply_compositor L fs directory (filter image_name names) wp op pos sf)) =
        None"
      using quiet by (rule apply_compositor_returns)
    from compositor_calls_complete [OF this] run
    show "compositor_calls
              (fst (add_watermarks_to_directory L fs (PyStr directory) wp op pos sf)) =
            map (\<lambda>name. (os_path_join directory name,
                           os_path_basename (os_path_join directory name)))
              (filter image_name names)"
      unfolding trace_calls by simp
  qed
  have fourth: "listings
      (fst (add_watermarks_to_directory L fs (PyStr directory) wp op pos sf)) = [directory]"
    unfolding trace_lists
    using listings_apply_compositor [of L fs directory "filter image_name names" wp op pos sf]
      run by simp
  from first second third fourth show ?thesis by (intro conjI)
qed

lemmas name_eval =
  image_name_def endswith_any_def endswith_def lower_def lower_char_def
  IMAGE_FILE_EXTENSIONS_def os_path_join_def os_path_basename_def

lemma example_listing:
  "listdir size_library example_files ''photos'' = Inr [''a.png'', ''b.txt'', ''c.JPG'', ''sub'']"
  by (simp add: size_library_def example_files_def)

lemma example_names:
  "image_name ''a.png''" "\<not> image_name ''b.txt''" "image_name ''c.JPG''" "\<not> image_name ''sub''"
  by (simp_all add: name_eval)

lemma example_paths:
  "os_path_join ''photos'' ''a.png'' = ''photos/a.png''"
  "os_path_join ''photos'' ''c.JPG'' = ''photos/c.JPG''"
  "os_path_basename ''photos/a.png'' = ''a.png''"
  "os_path_basename ''photos/c.JPG'' = ''c.JPG''"
  by (simp_all add: os_path_join_def os_path_basename_def)

lemma size_library_prints: "\<forall>fs line. print_line size_library fs line = None"
  by (simp add: size_library_def)

theorem batch_processes_image_names_witness:
  "listdir size_library example_files ''photos'' =
     Inr [''a.png'', ''b.txt'', ''c.JPG'', ''sub''] \<and>
   (\<forall>fs line. print_line size_library fs line = None) \<and>
   filter image_name [''a.png'', ''b.txt'', ''c.JPG'', ''sub''] = [''a.png'', ''c.JPG''] \<and>
   compositor_calls
     (fst (add_watermarks_to_directory size_library example_files (PyStr ''photos'')
             (PyStr ''logo.png'') (PyStr ''out'') (PyStr ''top-left'') (PyFloat half))) =
     [(''photos/a.png'', ''a.png''), (''photos/c.JPG'', ''c.JPG'')] \<and>
   listings
     (fst (add_watermarks_to_directory size_library example_files (PyStr ''photos'')
             (PyStr ''logo.png'') (PyStr ''out'') (PyStr ''top-left'') (PyFloat half))) =
     [''photos'']"
proof -
  note run = batch_processes_image_names [OF example_listing, of "PyStr ''logo.png''"
      "PyStr ''out''" "PyStr ''top-left''" "PyFloat half"]
  have names: "filter image_name [''a.png'', ''b.txt'', ''c.JPG'', ''sub''] =
      [''a.png'', ''c.JPG'']"
    by (simp add: example_names)
  have calls: "compositor_calls
     (fst (add_watermarks_to_directory size_library example_files (PyStr ''photos'')
             (PyStr ''logo.png'') (PyStr ''out'') (PyStr ''top-left'') (PyFloat half))) =
     [(''photos/a.png'', ''a.png''), (''photos/c.JPG'', ''c.JPG'')]"
    using run [THEN conjunct2, THEN conjunct2, THEN conjunct1] size_library_prints
    by (simp add: example_names example_paths)
  have once: "listings
     (fst (add_watermarks_to_directory size_library example_files (PyStr ''photos'')
             (PyStr ''logo.png'') (PyStr ''out'') (PyStr ''top-left'') (PyFloat half))) =
     [''photos'']"
    using run [THEN conjunct2, THEN conjunct2, THEN conjunct2] .
  from example_listing size_library_prints names calls once show ?thesis
    by (intro conjI)
qed

text \<open>A subdirectory named \<open>dir.png\<close> is not skipped: the compositor is applied to it, and
  reports that it cannot open it.\<close>

theorem subdirectory_processed_counterexample:
  "map_of album_files ''album/dir.png'' = Some (Directory []) \<and>
   add_watermarks_to_directory size_library album_files (PyStr ''album'') (PyStr ''logo.png'')
     (PyStr ''out'') (PyStr ''top-left'') (PyFloat half) =
     ([ListdirCall ''album'',
       AddWatermarkCall ''album/dir.png'' ''dir.png''
         [OpenCall ''album/dir.png'', Printed ''Error: Is a directory: album/dir.png'']],
      album_files, None)"
proof -
  have run: "add_watermark size_library album_files (PyStr ''album/dir.png'') (PyStr ''logo.png'')
      (PyStr ''out'') (PyStr ''top-left'') (PyFloat half) (PyStr ''dir.png'') =
      ([OpenCall ''album/dir.png'', Printed ''Error: Is a directory: album/dir.png''],
       album_files, None)"
    by (simp add: add_watermark_def add_watermark_body_def valid_positions_def then_do_def
        size_library_def album_files_def)
  have names: "image_name ''dir.png''" "\<not> image_name ''notes''"
    by (simp_all add: name_eval)
  have paths: "os_path_join ''album'' ''dir.png'' = ''album/dir.png''"
    "os_path_basename ''album/dir.png'' = ''dir.png''"
    by (simp_all add: os_path_join_def os_path_basename_def)
  have listing: "listdir size_library album_files ''album'' = Inr [''dir.png'', ''notes'']"
    by (simp add: size_library_def album_files_def)
  have "process_entries size_library album_files ''album'' [''dir.png'', ''notes'']
      (PyStr ''logo.png'') (PyStr ''out'') (PyStr ''top-left'') (PyFloat half) =
      ([AddWatermarkCall ''album/dir.png'' ''dir.png''
         [OpenCall ''album/dir.png'', Printed ''Error: Is a directory: album/dir.png'']],
       album_files, None)"
    by (simp add: process_entries_apply_compositor names paths run)
  then show ?thesis
    by (simp add: add_watermarks_to_directory_def listing) (simp add: album_files_def)
qed

lemma apply_compositor_append:
  "apply_compositor L fs directory xs wp op pos sf = (evs1, fs1, None) \<Longrightarrow>
   apply_compositor L fs directory (xs @ ys) wp op pos sf =
     (case apply_compositor L fs1 directory ys wp op pos sf of
        (evs2, fs2, out) \<Rightarrow> (evs1 @ evs2, fs2, out))"
proof (induction xs arbitrary: fs evs1)
  case Nil
  then show ?case by (simp split: prod.splits)
next
  case (Cons name rest)
  show ?case
  proof (cases rule: apply_compositor_cases [of L fs directory name wp op pos sf rest])
    case (stop evs fs' e)
    then show ?thesis using Cons.prems by simp
  next
    case (go evs fs' later fs2 out)
    with Cons.prems have parts: "evs1 = AddWatermarkCall (os_path_join directory name)
            (os_path_basename (os_path_join directory name)) evs # later"
      "fs2 = fs1" "out = None"
      by simp_all
    obtain evs2 fs3 out2 where
        tail: "apply_compositor L fs1 directory ys wp op pos sf = (evs2, fs3, out2)"
      by (cases "apply_compositor L fs1 directory ys wp op pos sf")
    have "apply_compositor L fs' directory (rest @ ys) wp op pos sf = (later @ evs2, fs3, out2)"
      using Cons.IH [of fs' later] go(2) parts tail by simp
    from apply_compositor_go [OF go(1) this] tail parts show ?thesis
      by simp
  qed
qed

lemma apply_compositor_head:
  "\<exists>rest fs' out. apply_compositor L fs directory (name # names) wp op pos sf =
     (AddWatermarkCall (os_path_join directory name)
        (os_path_basename (os_path_join directory name))
        (fst (add_watermark L fs (PyStr (os_path_join directory name)) wp op pos sf
                (PyStr (os_path_basename (os_path_join directory name))))) # rest, fs', out)"
proof (cases rule: apply_compositor_cases [of L fs directory name wp op pos sf names])
  case (stop evs fs1 e)
  then show ?thesis by simp
next
  case (go evs fs1 later fs2 out)
  then show ?thesis by simp
qed

lemma driver_events:
  assumes "listdir L fs directory = Inr names"
    and "process_entries L fs directory names wp op pos sf = (evs, fs', out)"
  shows "\<exists>tail. fst (add_watermarks_to_directory L fs (PyStr directory) wp op pos sf) =
           ListdirCall directory # evs @ tail"
  using assms by (cases out) (simp_all add: add_watermarks_to_directory_def)

text \<open>
  Claim C8. When the compositor fails on a matching file with whatever exception and the
  report of that exception is printed, the loop goes on with the rest of the listing: the
  compositor is applied to every matching entry after it, provided the applications in
  between return.
\<close>

theorem failure_does_not_stop_batch:
  assumes "listdir L fs directory = Inr (earlier @ failing # between @ name # remaining)"
    and "image_name failing" and "image_name name"
    and "process_entries L fs directory earlier wp op pos sf = (evs0, fs0, None)"
    and "add_watermark_body L fs0 (PyStr (os_path_join directory failing)) wp op pos sf
           (PyStr (os_path_basename (os_path_join directory failing))) = (evs, fs1, Inl e)"
    and "print_line L fs1 (handler_line e) = None"
    and "process_entries L fs1 directory between wp op pos sf = (evs2, fs2, None)"
  shows "\<exists>rest. fst (add_watermarks_to_directory L fs (PyStr directory) wp op pos sf) =
           ListdirCall directory # evs0
             @ AddWatermarkCall (os_path_join directory failing)
                 (os_path_basename (os_path_join directory failing))
                 (evs @ [Printed (handler_line e)])
             # evs2
             @ AddWatermarkCall (os_path_join directory name)
                 (os_path_basename (os_path_join directory name))
                 (fst (add_watermark L fs2 (PyStr (os_path_join directory name)) wp op pos sf
                         (PyStr (os_path_basename (os_path_join directory name)))))
             # rest"
proof -
  have before: "apply_compositor L fs directory (filter image_name earlier) wp op pos sf =
      (evs0, fs0, None)"
    using assms(4) by (simp add: process_entries_apply_compositor)
  have middle: "apply_compositor L fs1 directory (filter image_name between) wp op pos sf =
      (evs2, fs2, None)"
    using assms(7) by (simp add: process_entries_apply_compositor)
  have run: "add_watermark L fs0 (PyStr (os_path_join directory failing)) wp op pos sf
           (PyStr (os_path_basename (os_path_join directory failing))) =
           (evs @ [Printed (handler_line e)], fs1, None)"
    using assms(5,6) by (simp add: add_watermark_def)
  obtain rest fs3 out where last: "apply_compositor L fs2 directory
      (name # filter image_name remaining) wp op pos sf =
      (AddWatermarkCall (os_path_join directory name)
         (os_path_basename (os_path_join directory name))
         (fst (add_watermark L fs2 (PyStr (os_path_join directory name)) wp op pos sf
                 (PyStr (os_path_basename (os_path_join directory name))))) # rest, fs3, out)"
    using apply_compositor_head [of L fs2 directory name "filter image_name remaining" wp op pos sf]
    by blast
  have "apply_compositor L fs1 directory
      (filter image_name between @ name # filter image_name remaining) wp op pos sf =
      (evs2 @ AddWatermarkCall (os_path_join directory name)
         (os_path_basename (os_path_join directory name))
         (fst (add_watermark L fs2 (PyStr (os_path_join directory name)) wp op pos sf
                 (PyStr (os_path_basename (os_path_join directory name))))) # rest, fs3, out)"
    using apply_compositor_append [OF middle, of "name # filter image_name remaining"] last by simp
  with run have "apply_compositor L fs0 directory
      (failing # filter image_name between @ name # filter image_name remaining) wp op pos sf =
      (AddWatermarkCall (os_path_join directory failing)
         (os_path_basename (os_path_join directory failing))
         (evs @ [Printed (handler_line e)])
       # evs2 @ AddWatermarkCall (os_path_join directory name)
         (os_path_basename (os_path_join directory name))
         (fst (add_watermark L fs2 (PyStr (os_path_join directory name)) wp op pos sf
                 (PyStr (os_path_basename (os_path_join directory name))))) # rest, fs3, out)"
    by (rule apply_compositor_go)
  then have "apply_compositor L fs directory
      (filter image_name earlier
         @ failing # filter image_name between @ name # filter image_name remaining) wp op pos sf =
      (evs0 @ AddWatermarkCall (os_path_join directory failing)
         (os_path_basename (os_path_join directory failing))
         (evs @ [Printed (handler_line e)])
       # evs2 @ AddWatermarkCall (os_path_join directory name)
         (os_path_basename (os_path_join directory name))
         (fst (add_watermark L fs2 (PyStr (os_path_join directory name)) wp op pos sf
                 (PyStr (os_path_basename (os_path_join directory name))))) # rest, fs3, out)"
    using apply_compositor_append [OF before,
        of "failing # filter image_name between @ name # filter image_name remaining"] by simp
  then have "process_entries L fs directory (earlier @ failing # between @ name # remaining)
      wp op pos sf =
      (evs0 @ AddWatermarkCall (os_path_join directory failing)
         (os_path_basename (os_path_join directory failing))
         (evs @ [Printed (handler_line e)])
       # evs2 @ AddWatermarkCall (os_path_join directory name)
         (os_path_basename (os_path_join directory name))
         (fst (add_watermark L fs2 (PyStr (os_path_join directory name)) wp op pos sf
                 (PyStr (os_path_basename (os_path_join directory name))))) # rest, fs3, out)"
    using assms(2,3) by (simp add: process_entries_apply_compositor)
  from driver_events [OF assms(1) this] show ?thesis
    by auto
qed

lemma example_failure:
  "add_watermark_body size_library example_files (PyStr ''photos/a.png'') (PyStr ''logo.png'')
     (PyStr ''out'') (PyStr ''top-left'') (PyFloat half) (PyStr ''a.png'') =
     ([OpenCall ''photos/a.png''], example_files,
      Inl (OtherError ''cannot identify image file photos/a.png''))"
  by (simp add: add_watermark_body_def valid_positions_def then_do_def size_library_def
      example_files_def)

lemma example_success:
  "add_watermark size_library example_files (PyStr ''photos/c.JPG'') (PyStr ''logo.png'')
     (PyStr ''out'') (PyStr ''top-left'') (PyFloat half) (PyStr ''c.JPG'') =
     ([OpenCall ''photos/c.JPG'', OpenCall ''logo.png'',
       ResizeCall (PyTuple [PyInt 100, PyInt 50]), GrayscaleCall, InvertCall,
       PasteCall (Some (0, 0)), SaveCall (Some ''out/watermarked_c.JPG''),
       Printed ''Saved watermark (logo.png) to image (c.JPG) at (top-left) position''],
      (''out/watermarked_c.JPG'', ImageFile (200, 100)) # example_files, None)"
proof -
  have opened: "image_open size_library example_files ''photos/c.JPG'' = Inr (200, 100)"
    "image_open size_library example_files ''logo.png'' = Inr (50, 50)"
    by (simp_all add: size_library_def example_files_def)
  have target: "resize (size_value (200, 100)) (PyFloat half) = Inr (PyTuple [PyInt 100, PyInt 50])"
    using resize_200_100_half by (simp add: size_value_def)
  have parts: "image_size size_library = (\<lambda>img. img)"
    "image_resize size_library (50, 50) (PyTuple [PyInt 100, PyInt 50]) = Inr (100, 50)"
    "grayscale size_library = Inr" "invert size_library = Inr"
    "image_paste size_library = (\<lambda>img watermark box mask. Inr img)"
    "image_save size_library example_files (200, 100) (Some ''out/watermarked_c.JPG'') =
       ((''out/watermarked_c.JPG'', ImageFile (200, 100)) # example_files, None)"
    "print_line size_library = (\<lambda>fs line. None)"
    by (simp_all add: size_library_def)
  have place: "offset (200, 100) (100, 50) (PyStr ''top-left'') = Inr (0, 0)"
    by (simp add: offset_def)
  have path: "build_output_path (PyStr ''c.JPG'') (PyStr ''out'') = Inr ''out/watermarked_c.JPG''"
    by (simp add: build_output_path_def os_path_join_def)
  show ?thesis
    by (simp add: add_watermark_def add_watermark_body_def valid_positions_def then_do_Inr
        composite_def opened target parts place path report_Inr or_none_def saved_line_def)
qed

theorem failure_does_not_stop_batch_witness:
  "listdir size_library example_files ''photos'' =
     Inr ([] @ ''a.png'' # [''b.txt''] @ ''c.JPG'' # [''sub'']) \<and>
   image_name ''a.png'' \<and> image_name ''c.JPG'' \<and>
   process_entries size_library example_files ''photos'' [] (PyStr ''logo.png'') (PyStr ''out'')
     (PyStr ''top-left'') (PyFloat half) = ([], example_files, None) \<and>
   add_watermark_body size_library example_files (PyStr ''photos/a.png'') (PyStr ''logo.png'')
     (PyStr ''out'') (PyStr ''top-left'') (PyFloat half) (PyStr ''a.png'') =
     ([OpenCall ''photos/a.png''], example_files,
      Inl (OtherError ''cannot identify image file photos/a.png'')) \<and>
   print_line size_library example_files
     (handler_line (OtherError ''cannot identify image file photos/a.png'')) = None \<and>
   process_entries size_library example_files ''photos'' [''b.txt''] (PyStr ''logo.png'')
     (PyStr ''out'') (PyStr ''top-left'') (PyFloat half) = ([], example_files, None) \<and>
   (\<exists>rest. fst (add_watermarks_to_directory size_library example_files (PyStr ''photos'')
                   (PyStr ''logo.png'') (PyStr ''out'') (PyStr ''top-left'') (PyFloat half)) =
     ListdirCall ''photos''
       # AddWatermarkCall ''photos/a.png'' ''a.png''
           [OpenCall ''photos/a.png'', Printed ''Error: cannot identify image file photos/a.png'']
       # AddWatermarkCall ''photos/c.JPG'' ''c.JPG''
           [OpenCall ''photos/c.JPG'', OpenCall ''logo.png'',
            ResizeCall (PyTuple [PyInt 100, PyInt 50]), GrayscaleCall, InvertCall,
            PasteCall (Some (0, 0)), SaveCall (Some ''out/watermarked_c.JPG''),
            Printed ''Saved watermark (logo.png) to image (c.JPG) at (top-left) position'']
       # rest)"
proof -
  have listing: "listdir size_library example_files ''photos'' =
      Inr ([] @ ''a.png'' # [''b.txt''] @ ''c.JPG'' # [''sub''])"
    using example_listing by simp
  have start: "process_entries size_library example_files ''photos'' [] (PyStr ''logo.png'')
     (PyStr ''out'') (PyStr ''top-left'') (PyFloat half) = ([], example_files, None)"
    by simp
  have failure: "add_watermark_body size_library example_files
      (PyStr (os_path_join ''photos'' ''a.png'')) (PyStr ''logo.png'') (PyStr ''out'')
      (PyStr ''top-left'') (PyFloat half) (PyStr (os_path_basename (os_path_join ''photos'' ''a.png'')))
      = ([OpenCall ''photos/a.png''], example_files,
         Inl (OtherError ''cannot identify image file photos/a.png''))"
    using example_failure by (simp add: example_paths)
  have reported: "print_line size_library example_files
     (handler_line (OtherError ''cannot identify image file photos/a.png'')) = None"
    by (simp add: size_library_def)
  have between: "process_entries size_library example_files ''photos'' [''b.txt'']
      (PyStr ''logo.png'') (PyStr ''out'') (PyStr ''top-left'') (PyFloat half) =
      ([], example_files, None)"
    by (simp add: process_entries_apply_compositor example_names)
  note run = failure_does_not_stop_batch [OF listing example_names(1) example_names(3) start
      failure reported between]
  have trace: "\<exists>rest. fst (add_watermarks_to_directory size_library example_files
                   (PyStr ''photos'') (PyStr ''logo.png'') (PyStr ''out'') (PyStr ''top-left'')
                   (PyFloat half)) =
     ListdirCall ''photos''
       # AddWatermarkCall ''photos/a.png'' ''a.png''
           [OpenCall ''photos/a.png'', Printed ''Error: cannot identify image file photos/a.png'']
       # AddWatermarkCall ''photos/c.JPG'' ''c.JPG''
           [OpenCall ''photos/c.JPG'', OpenCall ''logo.png'',
            ResizeCall (PyTuple [PyInt 100, PyInt 50]), GrayscaleCall, InvertCall,
            PasteCall (Some (0, 0)), SaveCall (Some ''out/watermarked_c.JPG''),
            Printed ''Saved watermark (logo.png) to image (c.JPG) at (top-left) position'']
       # rest"
    using run by (simp add: example_paths example_success)
  from listing example_names(1) example_names(3) start example_failure reported between trace
  show ?thesis
    by (intro conjI)
qed

text \<open>
  On a console that cannot encode the name of a corrupt file, the \<open>print\<close> of the report
  raises in the handler of \<open>add_watermark\<close>; the exception ends the loop in
  \<open>add_watermarks_to_directory\<close>, and the image \<open>c.JPG\<close> after it is never processed.
\<close>

theorem report_failure_stops_batch_counterexample:
  "listdir ascii_library cafe_files ''photos'' = Inr [cafe_png, ''c.JPG''] \<and>
   image_name cafe_png \<and> image_name ''c.JPG'' \<and>
   add_watermark_body ascii_library cafe_files (PyStr (''photos/'' @ cafe_png))
     (PyStr ''logo.png'') (PyStr ''out'') (PyStr ''top-left'') (PyFloat half) (PyStr cafe_png) =
     ([OpenCall (''photos/'' @ cafe_png)], cafe_files,
      Inl (OtherError (''cannot identify image file photos/'' @ cafe_png))) \<and>
   add_watermarks_to_directory ascii_library cafe_files (PyStr ''photos'') (PyStr ''logo.png'')
     (PyStr ''out'') (PyStr ''top-left'') (PyFloat half) =
     ([ListdirCall ''photos'',
       AddWatermarkCall (''photos/'' @ cafe_png) cafe_png
         [OpenCall (''photos/'' @ cafe_png),
          Printed (''Error: cannot identify image file photos/'' @ cafe_png)],
       BatchPrinted (''Error: '' @ quoted ''ascii'' @ '' codec can'' @ apostrophe
                       @ ''t encode the line'')],
      cafe_files, None) \<and>
   compositor_calls
     (fst (add_watermarks_to_directory ascii_library cafe_files (PyStr ''photos'')
             (PyStr ''logo.png'') (PyStr ''out'') (PyStr ''top-left'') (PyFloat half))) =
     [(''photos/'' @ cafe_png, cafe_png)]"
proof -
  have listing: "listdir ascii_library cafe_files ''photos'' = Inr [cafe_png, ''c.JPG'']"
    by (simp add: ascii_library_def size_library_def cafe_files_def)
  have names: "image_name cafe_png" "image_name ''c.JPG''"
    by (simp_all add: name_eval cafe_png_def)
  have paths: "os_path_join ''photos'' cafe_png = ''photos/'' @ cafe_png"
    "os_path_basename (''photos/'' @ cafe_png) = cafe_png"
    by (simp_all add: os_path_join_def os_path_basename_def cafe_png_def)
  have body: "add_watermark_body ascii_library cafe_files (PyStr (''photos/'' @ cafe_png))
     (PyStr ''logo.png'') (PyStr ''out'') (PyStr ''top-left'') (PyFloat half) (PyStr cafe_png) =
     ([OpenCall (''photos/'' @ cafe_png)], cafe_files,
      Inl (OtherError (''cannot identify image file photos/'' @ cafe_png)))"
    by (simp add: add_watermark_body_def valid_positions_def then_do_def ascii_library_def
        size_library_def cafe_files_def cafe_png_def)
  have raised: "print_line ascii_library cafe_files
      (''Error: cannot identify image file photos/'' @ cafe_png) =
      Some (ValueError (quoted ''ascii'' @ '' codec can'' @ apostrophe @ ''t encode the line''))"
    by (simp add: ascii_library_def ascii_print_def cafe_png_def)
  have printed: "print_line ascii_library cafe_files
      (''Error: '' @ quoted ''ascii'' @ '' codec can'' @ apostrophe @ ''t encode the line'') = None"
    by (simp add: ascii_library_def ascii_print_def quoted_def apostrophe_def)
  have run: "add_watermark ascii_library cafe_files (PyStr (''photos/'' @ cafe_png))
     (PyStr ''logo.png'') (PyStr ''out'') (PyStr ''top-left'') (PyFloat half) (PyStr cafe_png) =
     ([OpenCall (''photos/'' @ cafe_png),
       Printed (''Error: cannot identify image file photos/'' @ cafe_png)], cafe_files,
      Some (ValueError (quoted ''ascii'' @ '' codec can'' @ apostrophe @ ''t encode the line'')))"
    unfolding add_watermark_def body using raised by simp
  have loop: "process_entries ascii_library cafe_files ''photos'' [cafe_png, ''c.JPG'']
      (PyStr ''logo.png'') (PyStr ''out'') (PyStr ''top-left'') (PyFloat half) =
      ([AddWatermarkCall (''photos/'' @ cafe_png) cafe_png
         [OpenCall (''photos/'' @ cafe_png),
          Printed (''Error: cannot identify image file photos/'' @ cafe_png)]], cafe_files,
       Some (ValueError (quoted ''ascii'' @ '' codec can'' @ apostrophe @ ''t encode the line'')))"
    unfolding process_entries_apply_compositor using names apply_compositor_stop [of
        ascii_library cafe_files "''photos''" cafe_png "PyStr ''logo.png''" "PyStr ''out''"
        "PyStr ''top-left''" "PyFloat half" _ _ _ "[''c.JPG'']"] run
    by (simp only: filter.simps if_True paths)
  have whole: "add_watermarks_to_directory ascii_library cafe_files (PyStr ''photos'')
     (PyStr ''logo.png'') (PyStr ''out'') (PyStr ''top-left'') (PyFloat half) =
     ([ListdirCall ''photos'',
       AddWatermarkCall (''photos/'' @ cafe_png) cafe_png
         [OpenCall (''photos/'' @ cafe_png),
          Printed (''Error: cannot identify image file photos/'' @ cafe_png)],
       BatchPrinted (''Error: '' @ quoted ''ascii'' @ '' codec can'' @ apostrophe
                       @ ''t encode the line'')],
      cafe_files, None)"
    unfolding add_watermarks_to_directory_def using printed listing loop by simp
  have calls: "compositor_calls
     (fst (add_watermarks_to_directory ascii_library cafe_files (PyStr ''photos'')
             (PyStr ''logo.png'') (PyStr ''out'') (PyStr ''top-left'') (PyFloat half))) =
     [(''photos/'' @ cafe_png, cafe_png)]"
    unfolding whole by simp
  from listing names body whole calls show ?thesis
    by (intro conjI)
qed

end
